theory Spec2Isabelle
  imports Complex_Main "HOL-Library.Multiset"
begin

chapter \<open>The program and its specification\<close>

section \<open>Conventions of the embedding\<close>

text \<open>
  The program is \<^verbatim>\<open>src/sketch2mask/metrics.py\<close>. Its arrays are numpy arrays and torch
  tensors of floating-point numbers. The embedding uses exact real arithmetic in their
  place: a theorem below states which formula the code evaluates, not how the result is
  rounded. A float that is NaN is the value \<open>None\<close> of \<open>real option\<close>; a Python
  exception is an \<open>Inl\<close> of a sum type.

  A two-dimensional array is the list of its rows; a torch tensor whose axes are
  permuted and reshaped is its shape and its elements in storage order. Python integers
  are \<open>int\<close>; array lengths and indices are \<open>nat\<close>. A variable of the source named
  \<^verbatim>\<open>real\<close>, \<^verbatim>\<open>root\<close> or \<^verbatim>\<open>top\<close> has another name here, since these are constants
  of the logic.
\<close>

type_synonym matrix = "real list list"

section \<open>Mean IoU (\<^verbatim>\<open>compute_miou\<close>)\<close>

text \<open>
  A label grid is a tensor of integer class labels, given as the list of its rows. The
  comparisons, \<^verbatim>\<open>&\<close>, \<^verbatim>\<open>|\<close> and \<^verbatim>\<open>.sum()\<close> of the source work element by element, so the
  number of axes does not matter to them; the two grids have the same shape.
\<close>

type_synonym label_grid = "int list list"

text \<open>\<^verbatim>\<open>masks == cls\<close>: the boolean mask of one class.\<close>

definition mask_eq :: "label_grid \<Rightarrow> int \<Rightarrow> bool list list" where
  "mask_eq masks cls = map (map (\<lambda>v. v = cls)) masks"

text \<open>\<^verbatim>\<open>a & b\<close> and \<^verbatim>\<open>a | b\<close> on boolean tensors of one shape.\<close>

definition mask_and :: "bool list list \<Rightarrow> bool list list \<Rightarrow> bool list list" where
  "mask_and a b = map2 (map2 (\<and>)) a b"

definition mask_or :: "bool list list \<Rightarrow> bool list list \<Rightarrow> bool list list" where
  "mask_or a b = map2 (map2 (\<or>)) a b"

text \<open>\<^verbatim>\<open>mask.sum().item()\<close>: the number of true entries.\<close>

definition mask_sum :: "bool list list \<Rightarrow> nat" where
  "mask_sum a = length (filter (\<lambda>b. b) (concat a))"

text \<open>
  The body of the loop over the classes: the entry appended to \<^verbatim>\<open>iou_per_class\<close>.
  \<open>None\<close> is \<^verbatim>\<open>float('nan')\<close>.
\<close>

definition class_iou :: "label_grid \<Rightarrow> label_grid \<Rightarrow> int \<Rightarrow> real option" where
  "class_iou pred_masks true_masks cls =
     (let pred_cls = mask_eq pred_masks cls;
          true_cls = mask_eq true_masks cls;
          intersection = mask_sum (mask_and pred_cls true_cls);
          union = mask_sum (mask_or pred_cls true_cls)
      in if union = 0 then None else Some (real intersection / real union))"

text \<open>
  \<^verbatim>\<open>np.nanmean\<close> of a list of floats: the mean of the entries that are not NaN, and NaN
  when there is none (an empty list included).
\<close>

fun nan_free :: "real option list \<Rightarrow> real list" where
  "nan_free [] = []"
| "nan_free (None # xs) = nan_free xs"
| "nan_free (Some v # xs) = v # nan_free xs"

definition np_nanmean :: "real option list \<Rightarrow> real option" where
  "np_nanmean xs =
     (let vs = nan_free xs
      in if vs = [] then None else Some (sum_list vs / real (length vs)))"

text \<open>\<^verbatim>\<open>range(num_classes)\<close> is \<open>[0..num_classes - 1]\<close>, empty when \<open>num_classes \<le> 0\<close>.\<close>

definition compute_miou :: "label_grid \<Rightarrow> label_grid \<Rightarrow> int \<Rightarrow> real option" where
  "compute_miou pred_masks true_masks num_classes =
     np_nanmean (map (class_iou pred_masks true_masks) [0..num_classes - 1])"

subsection \<open>What the specification says of mean IoU\<close>

text \<open>Two grids of one shape: as many rows, and rows of equal lengths.\<close>

definition same_shape :: "'a list list \<Rightarrow> 'b list list \<Rightarrow> bool" where
  "same_shape a b = list_all2 (\<lambda>r s. length r = length s) a b"

text \<open>The pixels of the two grids, paired position by position.\<close>

definition pixel_pairs :: "label_grid \<Rightarrow> label_grid \<Rightarrow> (int \<times> int) list" where
  "pixel_pairs pred_masks true_masks = zip (concat pred_masks) (concat true_masks)"

text \<open>The pixels that both grids give to class \<open>c\<close>, and those that either one does.\<close>

definition intersection_count :: "label_grid \<Rightarrow> label_grid \<Rightarrow> int \<Rightarrow> nat" where
  "intersection_count pred_masks true_masks c =
     length (filter (\<lambda>(p, t). p = c \<and> t = c) (pixel_pairs pred_masks true_masks))"

definition union_count :: "label_grid \<Rightarrow> label_grid \<Rightarrow> int \<Rightarrow> nat" where
  "union_count pred_masks true_masks c =
     length (filter (\<lambda>(p, t). p = c \<or> t = c) (pixel_pairs pred_masks true_masks))"

text \<open>The classes of \<open>[0, C)\<close> that have a pixel in one of the grids.\<close>

definition defined_classes :: "label_grid \<Rightarrow> label_grid \<Rightarrow> int \<Rightarrow> int list" where
  "defined_classes pred_masks true_masks C =
     filter (\<lambda>c. union_count pred_masks true_masks c \<noteq> 0) [0..C - 1]"

text \<open>The mean of the IoU over the defined classes only, NaN when no class is defined.\<close>

definition spec_miou :: "label_grid \<Rightarrow> label_grid \<Rightarrow> int \<Rightarrow> real option" where
  "spec_miou pred_masks true_masks C =
     (let cs = defined_classes pred_masks true_masks C
      in if cs = [] then None
         else Some ((\<Sum>c\<leftarrow>cs. real (intersection_count pred_masks true_masks c) /
                              real (union_count pred_masks true_masks c))
                    / real (length cs)))"

section \<open>Errors\<close>

text \<open>
  The exceptions that the modelled code raises. The first three are the three
  \<^verbatim>\<open>raise ValueError(...)\<close> statements of the source, told apart by their message:
  \<^verbatim>\<open>"Error: No image files found in ..."\<close>,
  \<^verbatim>\<open>"Error: Unable to extract features from ..."\<close> and
  \<^verbatim>\<open>"Not enough samples to compute KID."\<close>. The others are raised by Python, numpy or
  torch: a float division by the integer zero, a torch \<^verbatim>\<open>RuntimeError\<close> (\<^verbatim>\<open>one_hot\<close> on
  a label outside the classes, \<^verbatim>\<open>torch.stack\<close> of no tensor) and an index out of range.
\<close>

datatype error =
    NoImageFilesFound
  | UnableToExtractFeatures
  | NotEnoughSamples
  | ZeroDivisionError
  | RuntimeError
  | IndexError

text \<open>A loop whose body may raise: the first exception ends it.\<close>

fun collect :: "(error + 'a) list \<Rightarrow> error + 'a list" where
  "collect [] = Inr []"
| "collect (Inl e # rs) = Inl e"
| "collect (Inr v # rs) = (case collect rs of Inl e \<Rightarrow> Inl e | Inr vs \<Rightarrow> Inr (v # vs))"

section \<open>Average precision (\<^verbatim>\<open>compute_ap\<close>, \<^verbatim>\<open>precision_recall_curve_torch\<close>)\<close>

text \<open>
  A tensor is its shape and its elements in row-major order. An element of
  \<^verbatim>\<open>real_masks\<close> is a tensor of labels of shape \<open>(B, H, W)\<close>, an element of
  \<^verbatim>\<open>pred_probs\<close> a tensor of probabilities of shape \<open>(B, C, H, W)\<close>.
\<close>

record 'a tensor =
  shape :: "nat list"
  data :: "'a list"

type_synonym label_mask = "int list"

text \<open>\<^verbatim>\<open>real.view(-1).long()\<close>: the labels in storage order.\<close>

definition view_flat :: "int tensor \<Rightarrow> label_mask" where
  "view_flat real_mask = data real_mask"

text \<open>
  \<^verbatim>\<open>pred.permute(0, 2, 3, 1).reshape(-1, pred.size(1))\<close> for a tensor of four axes: one
  row for each pixel \<open>(b, h, w)\<close>, with the probabilities of the \<open>C\<close> classes, which the
  storage holds at \<open>((b C + c) H + h) W + w\<close>.
\<close>

definition permute_reshape :: "real tensor \<Rightarrow> matrix" where
  "permute_reshape pred =
     (let B = shape pred ! 0; C = shape pred ! 1; H = shape pred ! 2; W = shape pred ! 3
      in concat (map (\<lambda>b. concat (map (\<lambda>h. map (\<lambda>w. map (\<lambda>c.
           data pred ! (((b * C + c) * H + h) * W + w)) [0..<C]) [0..<W]) [0..<H])) [0..<B]))"

text \<open>\<^verbatim>\<open>m[:, j]\<close>: a column of a matrix.\<close>

definition column :: "'a list list \<Rightarrow> nat \<Rightarrow> 'a list" where
  "column m j = map (\<lambda>r. r ! j) m"

text \<open>
  \<^verbatim>\<open>torch.nn.functional.one_hot(real_flat, num_classes=C).float()\<close>. torch raises a
  \<^verbatim>\<open>RuntimeError\<close> for a negative label, for a label that is not below \<open>C\<close>, and for
  \<open>C = 0\<close>.
\<close>

definition one_hot :: "label_mask \<Rightarrow> nat \<Rightarrow> error + matrix" where
  "one_hot real_flat C =
     (if C = 0 \<or> \<not> list_all (\<lambda>l. 0 \<le> l \<and> l < int C) real_flat then Inl RuntimeError
      else Inr (map (\<lambda>l. map (\<lambda>c. if l = int c then 1 else 0) [0..<C]) real_flat))"

text \<open>
  \<^verbatim>\<open>torch.argsort(pred, descending=True)\<close>: the indices of \<open>pred\<close>, by descending value.
  torch leaves the order of equal values open; the model keeps them in their order of
  index. No theorem below depends on how ties are broken.
\<close>

definition argsort_desc :: "real list \<Rightarrow> nat list" where
  "argsort_desc pred = sort_key (\<lambda>i. - (pred ! i)) [0..<length pred]"

text \<open>\<^verbatim>\<open>torch.cumsum(v, dim=0)\<close>.\<close>

fun cumsum_from :: "real \<Rightarrow> real list \<Rightarrow> real list" where
  "cumsum_from acc [] = []"
| "cumsum_from acc (x # xs) = (acc + x) # cumsum_from (acc + x) xs"

definition cumsum :: "real list \<Rightarrow> real list" where
  "cumsum v = cumsum_from 0 v"

text \<open>
  The body of the loop over the classes in \<^verbatim>\<open>precision_recall_curve_torch\<close>, for the
  columns \<open>real_cls\<close> and \<open>pred\<close> of one class (\<^verbatim>\<open>real\<close> and \<^verbatim>\<open>pred\<close> in the source):
  the precision, recall and threshold tensors that are appended to the three lists.
  \<^verbatim>\<open>real[sorted_indices]\<close> raises when an index is not below the length of \<open>real_cls\<close>.
\<close>

definition class_curve ::
  "real list \<Rightarrow> real list \<Rightarrow> error + (real list \<times> real list \<times> real list)" where
  "class_curve real_cls pred =
     (let sorted_indices = argsort_desc pred
      in if length real_cls < length pred then Inl IndexError
         else
           let real_sorted = map (\<lambda>i. real_cls ! i) sorted_indices;
               pred_sorted = map (\<lambda>i. pred ! i) sorted_indices;
               tp = cumsum real_sorted;
               fp = cumsum (map (\<lambda>x. 1 - x) real_sorted);
               precision = map2 (\<lambda>t f. t / (t + f + 1 / 10 ^ 8)) tp fp;
               recall = map (\<lambda>t. t / (sum_list real_sorted + 1 / 10 ^ 8)) tp;
               thresholds = pred_sorted
           in Inr (precision, recall, thresholds))"

text \<open>
  \<^verbatim>\<open>torch.stack(ts, dim=0).mean(dim=0)\<close> for tensors of one length: the mean of the
  tensors at each position. \<^verbatim>\<open>torch.stack\<close> raises on an empty list.
\<close>

definition stack_mean :: "real list list \<Rightarrow> error + real list" where
  "stack_mean ts =
     (if ts = [] then Inl RuntimeError
      else Inr (map (\<lambda>k. sum_list (map (\<lambda>t. t ! k) ts) / real (length ts))
                  [0..<length (hd ts)]))"

text \<open>
  \<^verbatim>\<open>precision_recall_curve_torch(real_one_hot, pred_probs, device)\<close>; \<open>C\<close> is
  \<^verbatim>\<open>real_one_hot.size(1)\<close>.
\<close>

definition precision_recall_curve_torch ::
  "matrix \<Rightarrow> nat \<Rightarrow> matrix \<Rightarrow> error + (real list \<times> real list \<times> real list)" where
  "precision_recall_curve_torch real_one_hot C pred_probs =
     (case collect (map (\<lambda>class_idx. class_curve (column real_one_hot class_idx)
                                        (column pred_probs class_idx)) [0..<C]) of
        Inl e \<Rightarrow> Inl e
      | Inr curves \<Rightarrow>
          (case stack_mean (map (\<lambda>(p, r, t). p) curves) of
             Inl e \<Rightarrow> Inl e
           | Inr precision \<Rightarrow>
               (case stack_mean (map (\<lambda>(p, r, t). r) curves) of
                  Inl e \<Rightarrow> Inl e
                | Inr recall \<Rightarrow>
                    (case stack_mean (map (\<lambda>(p, r, t). t) curves) of
                       Inl e \<Rightarrow> Inl e
                     | Inr thresholds \<Rightarrow> Inr (precision, recall, thresholds)))))"

text \<open>
  \<^verbatim>\<open>torch.trapz(y, x)\<close>: half the sum of \<open>(x[1:] - x[:-1]) * (y[1:] + y[:-1])\<close>, which is
  0 for tensors of fewer than two elements.
\<close>

definition trapz :: "real list \<Rightarrow> real list \<Rightarrow> real" where
  "trapz y x =
     sum_list (map2 (\<lambda>dx s. s * dx)
                 (map2 (\<lambda>b a. b - a) (tl x) (butlast x))
                 (map2 (\<lambda>b a. b + a) (tl y) (butlast y))) / 2"

text \<open>
  The body of the loop of \<^verbatim>\<open>compute_ap\<close>: \<^verbatim>\<open>sample_ap\<close> for one pair. \<^verbatim>\<open>permute\<close>
  raises for a tensor that has not four axes, and \<^verbatim>\<open>reshape(-1, 0)\<close> raises.
\<close>

definition sample_ap :: "int tensor \<Rightarrow> real tensor \<Rightarrow> error + real" where
  "sample_ap real_mask pred =
     (if length (shape pred) \<noteq> 4 \<or> shape pred ! 1 = 0 then Inl RuntimeError
      else
        let real_flat = view_flat real_mask;
            pred_flat = permute_reshape pred
        in case one_hot real_flat (shape pred ! 1) of
             Inl e \<Rightarrow> Inl e
           | Inr real_one_hot \<Rightarrow>
               (case precision_recall_curve_torch real_one_hot (shape pred ! 1) pred_flat of
                  Inl e \<Rightarrow> Inl e
                | Inr (precision, recall, thresholds) \<Rightarrow> Inr (trapz precision recall)))"

text \<open>
  The loop of \<^verbatim>\<open>compute_ap\<close> over \<^verbatim>\<open>zip(real_masks, pred_probs)\<close>, with its two
  accumulators \<^verbatim>\<open>ap_score\<close> and \<^verbatim>\<open>total_samples\<close>.
\<close>

fun ap_loop :: "(int tensor \<times> real tensor) list \<Rightarrow> real \<Rightarrow> nat \<Rightarrow> error + (real \<times> nat)" where
  "ap_loop [] ap_score total_samples = Inr (ap_score, total_samples)"
| "ap_loop ((real_mask, pred) # rest) ap_score total_samples =
     (case sample_ap real_mask pred of
        Inl e \<Rightarrow> Inl e
      | Inr ap \<Rightarrow> ap_loop rest (ap_score + ap) (total_samples + 1))"

definition compute_ap :: "int tensor list \<Rightarrow> real tensor list \<Rightarrow> error + real" where
  "compute_ap real_masks pred_probs =
     (case ap_loop (zip real_masks pred_probs) 0 0 of
        Inl e \<Rightarrow> Inl e
      | Inr (ap_score, total_samples) \<Rightarrow>
          Inr (if total_samples > 0 then ap_score / real total_samples else ap_score))"

subsection \<open>What the specification says of average precision\<close>

text \<open>
  A sample as the curve sees it: the labels of the pixels, the number of classes and the
  rows of class probabilities of the pixels.
\<close>

record prob_mask =
  size1 :: nat
  pred_flat :: matrix

definition flat_sample :: "int tensor \<times> real tensor \<Rightarrow> label_mask \<times> prob_mask" where
  "flat_sample s =
     (case s of (real_mask, pred) \<Rightarrow>
        (view_flat real_mask, \<lparr>size1 = shape pred ! 1, pred_flat = permute_reshape pred\<rparr>))"

text \<open>
  A flattened sample that the data model admits: at least one class, as many labels as
  rows of probabilities, one probability for each class in every row, and labels among
  the classes.
\<close>

definition wf_sample :: "label_mask \<times> prob_mask \<Rightarrow> bool" where
  "wf_sample s =
     (case s of (real_mask, pred) \<Rightarrow>
        0 < size1 pred \<and> length real_mask = length (pred_flat pred) \<and>
        list_all (\<lambda>r. length r = size1 pred) (pred_flat pred) \<and>
        list_all (\<lambda>l. 0 \<le> l \<and> l < int (size1 pred)) real_mask)"

text \<open>
  A pair of tensors that the data model admits: each holds as many elements as its shape
  says, the probabilities have four axes, and the flattened sample is admitted.
\<close>

definition wf_tensor :: "'a tensor \<Rightarrow> bool" where
  "wf_tensor t = (length (data t) = prod_list (shape t))"

definition admitted :: "int tensor \<times> real tensor \<Rightarrow> bool" where
  "admitted s =
     (case s of (real_mask, pred) \<Rightarrow>
        wf_tensor real_mask \<and> wf_tensor pred \<and> length (shape pred) = 4 \<and>
        wf_sample (flat_sample s))"


text \<open>The ranking of the pixels for class \<open>c\<close>.\<close>

definition ranking :: "prob_mask \<Rightarrow> nat \<Rightarrow> nat list" where
  "ranking pred c = argsort_desc (column (pred_flat pred) c)"

text \<open>
  The cumulative counts at rank \<open>k\<close>: among the \<open>k + 1\<close> pixels ranked first for class
  \<open>c\<close>, those of class \<open>c\<close> (true positives) and those of another class (false
  positives).
\<close>

definition tp_at :: "label_mask \<Rightarrow> prob_mask \<Rightarrow> nat \<Rightarrow> nat \<Rightarrow> nat" where
  "tp_at real_mask pred c k =
     length (filter (\<lambda>j. real_mask ! (ranking pred c ! j) = int c) [0..<Suc k])"

definition fp_at :: "label_mask \<Rightarrow> prob_mask \<Rightarrow> nat \<Rightarrow> nat \<Rightarrow> nat" where
  "fp_at real_mask pred c k =
     length (filter (\<lambda>j. real_mask ! (ranking pred c ! j) \<noteq> int c) [0..<Suc k])"

definition total_positives :: "label_mask \<Rightarrow> nat \<Rightarrow> nat" where
  "total_positives real_mask c = length (filter (\<lambda>l. l = int c) real_mask)"

definition class_precision :: "label_mask \<Rightarrow> prob_mask \<Rightarrow> nat \<Rightarrow> nat \<Rightarrow> real" where
  "class_precision real_mask pred c k =
     real (tp_at real_mask pred c k) /
       (real (tp_at real_mask pred c k) + real (fp_at real_mask pred c k) + 1 / 10 ^ 8)"

definition class_recall :: "label_mask \<Rightarrow> prob_mask \<Rightarrow> nat \<Rightarrow> nat \<Rightarrow> real" where
  "class_recall real_mask pred c k =
     real (tp_at real_mask pred c k) / (real (total_positives real_mask c) + 1 / 10 ^ 8)"

text \<open>The classes blended at rank \<open>k\<close>: the plain mean over the classes.\<close>

definition blended_precision :: "label_mask \<Rightarrow> prob_mask \<Rightarrow> nat \<Rightarrow> real" where
  "blended_precision real_mask pred k =
     (\<Sum>c\<leftarrow>[0..<size1 pred]. class_precision real_mask pred c k) / real (size1 pred)"

definition blended_recall :: "label_mask \<Rightarrow> prob_mask \<Rightarrow> nat \<Rightarrow> real" where
  "blended_recall real_mask pred k =
     (\<Sum>c\<leftarrow>[0..<size1 pred]. class_recall real_mask pred c k) / real (size1 pred)"

text \<open>The trapezoidal rule on the blended curve: the AP of one sample.\<close>

definition blended_ap :: "label_mask \<times> prob_mask \<Rightarrow> real" where
  "blended_ap s =
     (case s of (real_mask, pred) \<Rightarrow>
        (\<Sum>k\<leftarrow>[0..<length real_mask - 1].
           (blended_recall real_mask pred (Suc k) - blended_recall real_mask pred k) *
           (blended_precision real_mask pred k + blended_precision real_mask pred (Suc k)) / 2))"

text \<open>The arithmetic mean of the sample APs, 0 for no sample.\<close>

definition mean_ap :: "(int tensor \<times> real tensor) list \<Rightarrow> real" where
  "mean_ap samples =
     (if samples = [] then 0
      else (\<Sum>s\<leftarrow>samples. blended_ap (flat_sample s)) / real (length samples))"

section \<open>Feature extraction (\<^verbatim>\<open>extract_features\<close>)\<close>

text \<open>
  A directory is the list of its entries, in the order in which the operating system
  lists them; an entry is a file or a subdirectory with its own entries. Symbolic links
  and directories that cannot be read are not modelled. File names are strings of ASCII
  characters.
\<close>

datatype entry = File string | Dir string "entry list"

text \<open>\<^verbatim>\<open>os.listdir(folder)\<close>: the names of all entries, files and subdirectories alike.\<close>

fun entry_name :: "entry \<Rightarrow> string" where
  "entry_name (File name) = name"
| "entry_name (Dir name sub) = name"

definition listdir :: "entry list \<Rightarrow> string list" where
  "listdir entries = map entry_name entries"

text \<open>\<^verbatim>\<open>os.path.join(a, b)\<close> on POSIX paths.\<close>

definition path_join :: "string \<Rightarrow> string \<Rightarrow> string" where
  "path_join a b =
     (if b \<noteq> [] \<and> hd b = CHR ''/'' then b
      else if a = [] \<or> last a = CHR ''/'' then a @ b
      else a @ ''/'' @ b)"

text \<open>
  \<^verbatim>\<open>os.walk(top)\<close>: top down, one triple \<open>(dirpath, dirs, files)\<close> for the directory
  (\<^verbatim>\<open>root, _, files\<close> in the source) and then the triples of each subdirectory in turn;
  \<open>files\<close> are the names of the entries that are not directories.
\<close>

fun dirnames :: "entry list \<Rightarrow> string list" where
  "dirnames [] = []"
| "dirnames (File name # es) = dirnames es"
| "dirnames (Dir name sub # es) = name # dirnames es"

fun filenames :: "entry list \<Rightarrow> string list" where
  "filenames [] = []"
| "filenames (File name # es) = name # filenames es"
| "filenames (Dir name sub # es) = filenames es"

fun walk_entry :: "string \<Rightarrow> entry \<Rightarrow> (string \<times> string list \<times> string list) list" where
  "walk_entry dirpath (File name) = []"
| "walk_entry dirpath (Dir name sub) =
     (path_join dirpath name, dirnames sub, filenames sub) #
       concat (map (walk_entry (path_join dirpath name)) sub)"

definition os_walk :: "string \<Rightarrow> entry list \<Rightarrow> (string \<times> string list \<times> string list) list" where
  "os_walk top_dir entries =
     (top_dir, dirnames entries, filenames entries) # concat (map (walk_entry top_dir) entries)"

text \<open>\<^verbatim>\<open>file.lower()\<close> on ASCII strings.\<close>

definition lower_char :: "char \<Rightarrow> char" where
  "lower_char c =
     (let n = of_char c :: nat in if 65 \<le> n \<and> n \<le> 90 then char_of (n + 32) else c)"

definition lower :: "string \<Rightarrow> string" where
  "lower s = map lower_char s"

text \<open>\<^verbatim>\<open>s.endswith(suffix)\<close>, and \<^verbatim>\<open>file.lower().endswith(('png', 'jpg', 'jpeg'))\<close>.\<close>

definition endswith :: "string \<Rightarrow> string \<Rightarrow> bool" where
  "endswith s suffix =
     (length suffix \<le> length s \<and> drop (length s - length suffix) s = suffix)"

definition is_image_name :: "string \<Rightarrow> bool" where
  "is_image_name file = list_ex (endswith (lower file)) [''png'', ''jpg'', ''jpeg'']"

text \<open>The list \<^verbatim>\<open>image_files\<close> that the first part of \<^verbatim>\<open>extract_features\<close> builds.\<close>

definition image_files :: "string \<Rightarrow> entry list \<Rightarrow> bool \<Rightarrow> string list" where
  "image_files image_folder entries recursive =
     (if recursive then
        concat (map (\<lambda>(dirpath, dirs, files). map (path_join dirpath) (filter is_image_name files))
                  (os_walk image_folder entries))
      else map (path_join image_folder) (filter is_image_name (listdir entries)))"

text \<open>
  The loop over \<^verbatim>\<open>image_files\<close>. The body of the \<^verbatim>\<open>try\<close> statement (opening the image,
  converting and transforming it, running the network) is the parameter \<open>process\<close>: it
  gives the feature row of a path, or \<open>None\<close> when any of these steps raises. The loop
  state is the list \<^verbatim>\<open>features\<close> and the paths for which the warning was printed.
\<close>

fun feature_loop ::
  "(string \<Rightarrow> real list option) \<Rightarrow> string list \<Rightarrow> matrix \<times> string list \<Rightarrow> matrix \<times> string list" where
  "feature_loop process [] state = state"
| "feature_loop process (img_path # rest) (features, warnings) =
     (case process img_path of
        Some feat \<Rightarrow> feature_loop process rest (features @ [feat], warnings)
      | None \<Rightarrow> feature_loop process rest (features, warnings @ [img_path]))"

text \<open>
  \<^verbatim>\<open>extract_features\<close>: the paths warned about, and the exception raised or the feature
  matrix returned (\<^verbatim>\<open>np.concatenate\<close> of the rows, all of one length).
\<close>

definition extract_features ::
  "string \<Rightarrow> entry list \<Rightarrow> (string \<Rightarrow> real list option) \<Rightarrow> bool \<Rightarrow> string list \<times> (error + matrix)" where
  "extract_features image_folder entries process recursive =
     (let files = image_files image_folder entries recursive
      in if length files = 0 then ([], Inl NoImageFilesFound)
         else
           (case feature_loop process files ([], []) of
              (features, warnings) \<Rightarrow>
                if length features = 0 then (warnings, Inl UnableToExtractFeatures)
                else (warnings, Inr features)))"

subsection \<open>What the specification says of feature extraction\<close>


text \<open>Both \<^verbatim>\<open>ValueError\<close>s of \<^verbatim>\<open>extract_features\<close> are the specification's \<open>EmptyInputError\<close>.\<close>

definition EmptyInputError :: "error \<Rightarrow> bool" where
  "EmptyInputError e = (e = NoImageFilesFound \<or> e = UnableToExtractFeatures)"

text \<open>The file cannot be processed: the body of the \<^verbatim>\<open>try\<close> statement raises.\<close>

definition fails :: "(string \<Rightarrow> real list option) \<Rightarrow> string \<Rightarrow> bool" where
  "fails process img_path = (process img_path = None)"

section \<open>Operations of numpy on matrices\<close>

text \<open>\<^verbatim>\<open>m.T\<close> for a matrix with at least one row.\<close>

definition np_T :: "matrix \<Rightarrow> matrix" where
  "np_T m = (if m = [] then [] else map (\<lambda>j. column m j) [0..<length (hd m)])"

text \<open>The inner product of two vectors of one length.\<close>

definition dotp :: "real list \<Rightarrow> real list \<Rightarrow> real" where
  "dotp u v = sum_list (map2 (\<lambda>a b. a * b) u v)"

text \<open>\<^verbatim>\<open>np.dot(a, b)\<close> and \<^verbatim>\<open>a @ b\<close> for matrices: rows of \<open>a\<close> against columns of \<open>b\<close>.\<close>

definition np_dot :: "matrix \<Rightarrow> matrix \<Rightarrow> matrix" where
  "np_dot a b = map (\<lambda>r. map (\<lambda>j. dotp r (column b j)) [0..<length (hd b)]) a"

text \<open>Element by element: \<^verbatim>\<open>a + b\<close>, \<^verbatim>\<open>a - b\<close>, and a function applied to every entry.\<close>

definition mat_add :: "matrix \<Rightarrow> matrix \<Rightarrow> matrix" where
  "mat_add a b = map2 (map2 (\<lambda>u v. u + v)) a b"

definition mat_sub :: "matrix \<Rightarrow> matrix \<Rightarrow> matrix" where
  "mat_sub a b = map2 (map2 (\<lambda>u v. u - v)) a b"

definition mat_map :: "(real \<Rightarrow> real) \<Rightarrow> matrix \<Rightarrow> matrix" where
  "mat_map f a = map (map f) a"

text \<open>\<^verbatim>\<open>a.sum()\<close> and \<^verbatim>\<open>np.trace(a)\<close>.\<close>

definition mat_sum :: "matrix \<Rightarrow> real" where
  "mat_sum a = sum_list (map sum_list a)"

definition np_trace :: "matrix \<Rightarrow> real" where
  "np_trace a = (if a = [] then 0
                 else sum_list (map (\<lambda>i. a ! i ! i) [0..<min (length a) (length (hd a))]))"

section \<open>Kernel Inception Distance (\<^verbatim>\<open>calculate_kid\<close>)\<close>

text \<open>
  \<^verbatim>\<open>np.random.choice(N, m, replace=False)\<close> reads and changes the global state of numpy's
  random generator. The model passes that state along: \<open>choice g N m\<close> is the sample
  drawn in state \<open>g\<close> and the state after the draw.
\<close>

type_synonym 'g choice = "'g \<Rightarrow> nat \<Rightarrow> nat \<Rightarrow> nat list \<times> 'g"

text \<open>\<^verbatim>\<open>(np.dot(x, y.T) / n + 1) ** 3\<close>.\<close>

definition kernel_matrix :: "nat \<Rightarrow> matrix \<Rightarrow> matrix \<Rightarrow> matrix" where
  "kernel_matrix n x y = mat_map (\<lambda>v. (v / real n + 1) ^ 3) (np_dot x (np_T y))"

text \<open>The value \<^verbatim>\<open>subset_estimate\<close> of one iteration, from the two samples.\<close>

definition subset_estimate :: "nat \<Rightarrow> int \<Rightarrow> matrix \<Rightarrow> matrix \<Rightarrow> real" where
  "subset_estimate n m x y =
     (let a = mat_add (kernel_matrix n x x) (kernel_matrix n y y);
          b = kernel_matrix n x y
      in (mat_sum a - np_trace a) / real_of_int (m - 1) - 2 * mat_sum b / real_of_int m)"

text \<open>
  The loop \<^verbatim>\<open>for _ in range(num_subsets)\<close>, with the number of iterations left, the state
  of the random generator and the accumulator \<open>t\<close>.
\<close>

fun kid_loop :: "'g choice \<Rightarrow> matrix \<Rightarrow> matrix \<Rightarrow> nat \<Rightarrow> int \<Rightarrow> nat \<Rightarrow> 'g \<Rightarrow> real \<Rightarrow> real \<times> 'g" where
  "kid_loop choice real_features gen_features n m 0 g t = (t, g)"
| "kid_loop choice real_features gen_features n m (Suc k) g t =
     (case choice g (length real_features) (nat m) of
        (idx_real, g1) \<Rightarrow>
          (case choice g1 (length gen_features) (nat m) of
             (idx_gen, g2) \<Rightarrow>
               (let x = map (\<lambda>i. gen_features ! i) idx_gen;
                    y = map (\<lambda>i. real_features ! i) idx_real
                in kid_loop choice real_features gen_features n m k g2
                     (t + subset_estimate n m x y))))"

text \<open>
  \<^verbatim>\<open>calculate_kid\<close> from the two feature matrices on (line 114 to the end). The
  division by \<^verbatim>\<open>num_subsets * m\<close> raises when \<^verbatim>\<open>num_subsets\<close> is 0: \<open>t\<close> is then still
  the Python float \<^verbatim>\<open>0.0\<close>.
\<close>

definition kid_score :: "'g choice \<Rightarrow> 'g \<Rightarrow> matrix \<Rightarrow> matrix \<Rightarrow> int \<Rightarrow> int \<Rightarrow> error + real" where
  "kid_score choice g real_features gen_features num_subsets max_subset_size =
     (let num_real = int (length real_features);
          num_gen = int (length gen_features);
          m = min num_real (min num_gen max_subset_size)
      in if m < 2 then Inl NotEnoughSamples
         else
           let n = length (hd real_features);
               t = fst (kid_loop choice real_features gen_features n m (nat num_subsets) g 0)
           in if num_subsets * m = 0 then Inl ZeroDivisionError
              else Inr (t / real_of_int (num_subsets * m)))"

text \<open>
  \<^verbatim>\<open>calculate_kid\<close>: the real images are searched recursively, the generated ones are
  not; an exception of \<^verbatim>\<open>extract_features\<close> ends the call.
\<close>

definition calculate_kid ::
  "'g choice \<Rightarrow> 'g \<Rightarrow> (string \<Rightarrow> real list option) \<Rightarrow> string \<Rightarrow> entry list \<Rightarrow> string \<Rightarrow> entry list \<Rightarrow>
   int \<Rightarrow> int \<Rightarrow> error + real" where
  "calculate_kid choice g process real_images_folder real_entries gen_images_folder gen_entries
     num_subsets max_subset_size =
     (case snd (extract_features real_images_folder real_entries process True) of
        Inl e \<Rightarrow> Inl e
      | Inr real_features \<Rightarrow>
          (case snd (extract_features gen_images_folder gen_entries process False) of
             Inl e \<Rightarrow> Inl e
           | Inr gen_features \<Rightarrow>
               kid_score choice g real_features gen_features num_subsets max_subset_size))"

subsection \<open>What the specification says of KID\<close>

text \<open>A matrix of \<open>N\<close> rows and \<open>D\<close> columns, such as a feature matrix.\<close>

definition has_shape :: "nat \<Rightarrow> nat \<Rightarrow> 'a list list \<Rightarrow> bool" where
  "has_shape N D m = (length m = N \<and> list_all (\<lambda>r. length r = D) m)"

text \<open>The subset size \<open>m = min(|real|, |gen|, max_subset_size)\<close>.\<close>

definition subset_size :: "matrix \<Rightarrow> matrix \<Rightarrow> int \<Rightarrow> int" where
  "subset_size real_features gen_features max_subset_size =
     min (int (length real_features)) (min (int (length gen_features)) max_subset_size)"

text \<open>The polynomial kernel \<open>k(u, v) = (u\<cdot>v / n + 1)\<^sup>3\<close> on vectors of dimension \<open>n\<close>.\<close>

definition poly_kernel :: "nat \<Rightarrow> real list \<Rightarrow> real list \<Rightarrow> real" where
  "poly_kernel n u v = ((\<Sum>i\<leftarrow>[0..<n]. u ! i * v ! i) / real n + 1) ^ 3"

text \<open>
  The estimate of one subset, from the samples \<open>x\<close> (generated) and \<open>y\<close> (real) of \<open>m\<close>
  rows: with \<open>a i j = k (x i) (x j) + k (y i) (y j)\<close> and \<open>b i j = k (x i) (y j)\<close>, the
  sum of \<open>a\<close> less its diagonal over \<open>m - 1\<close>, less twice the sum of \<open>b\<close> over \<open>m\<close>.
\<close>

definition spec_estimate :: "nat \<Rightarrow> nat \<Rightarrow> matrix \<Rightarrow> matrix \<Rightarrow> real" where
  "spec_estimate n m x y =
     ((\<Sum>i\<leftarrow>[0..<m]. \<Sum>j\<leftarrow>[0..<m].
          poly_kernel n (x ! i) (x ! j) + poly_kernel n (y ! i) (y ! j))
      - (\<Sum>i\<leftarrow>[0..<m]. poly_kernel n (x ! i) (x ! i) + poly_kernel n (y ! i) (y ! i)))
       / (real m - 1)
     - 2 * (\<Sum>i\<leftarrow>[0..<m]. \<Sum>j\<leftarrow>[0..<m]. poly_kernel n (x ! i) (y ! j)) / real m"

text \<open>
  The state of the random generator before iteration \<open>t\<close> of the loop, and the two
  index samples drawn in that iteration.
\<close>

fun rng_before :: "'g choice \<Rightarrow> nat \<Rightarrow> nat \<Rightarrow> nat \<Rightarrow> 'g \<Rightarrow> nat \<Rightarrow> 'g" where
  "rng_before choice num_real num_gen m g 0 = g"
| "rng_before choice num_real num_gen m g (Suc t) =
     rng_before choice num_real num_gen m
       (snd (choice (snd (choice g num_real m)) num_gen m)) t"

definition idx_real_at :: "'g choice \<Rightarrow> nat \<Rightarrow> nat \<Rightarrow> nat \<Rightarrow> 'g \<Rightarrow> nat \<Rightarrow> nat list" where
  "idx_real_at choice num_real num_gen m g t =
     fst (choice (rng_before choice num_real num_gen m g t) num_real m)"

definition idx_gen_at :: "'g choice \<Rightarrow> nat \<Rightarrow> nat \<Rightarrow> nat \<Rightarrow> 'g \<Rightarrow> nat \<Rightarrow> nat list" where
  "idx_gen_at choice num_real num_gen m g t =
     fst (choice (snd (choice (rng_before choice num_real num_gen m g t) num_real m)) num_gen m)"

text \<open>A sample of \<open>m\<close> indices below \<open>N\<close>, drawn without replacement.\<close>

definition valid_draw :: "nat \<Rightarrow> nat \<Rightarrow> nat list \<Rightarrow> bool" where
  "valid_draw N m idx = (length idx = m \<and> distinct idx \<and> list_all (\<lambda>i. i < N) idx)"

text \<open>Every draw of the first \<open>k\<close> iterations is such a sample.\<close>

definition valid_draws :: "'g choice \<Rightarrow> nat \<Rightarrow> nat \<Rightarrow> nat \<Rightarrow> 'g \<Rightarrow> nat \<Rightarrow> bool" where
  "valid_draws choice num_real num_gen m g k =
     list_all (\<lambda>t. valid_draw num_real m (idx_real_at choice num_real num_gen m g t) \<and>
                    valid_draw num_gen m (idx_gen_at choice num_real num_gen m g t)) [0..<k]"

text \<open>The estimate of iteration \<open>t\<close>, on the rows that its two index samples select.\<close>

definition estimate_at :: "'g choice \<Rightarrow> 'g \<Rightarrow> matrix \<Rightarrow> matrix \<Rightarrow> nat \<Rightarrow> nat \<Rightarrow> nat \<Rightarrow> real" where
  "estimate_at choice g real_features gen_features n m t =
     spec_estimate n m
       (map (\<lambda>i. gen_features ! i)
          (idx_gen_at choice (length real_features) (length gen_features) m g t))
       (map (\<lambda>i. real_features ! i)
          (idx_real_at choice (length real_features) (length gen_features) m g t))"

section \<open>Frechet Inception Distance (\<^verbatim>\<open>calculate_fid\<close>)\<close>

text \<open>\<^verbatim>\<open>features.mean(axis=0)\<close>: the mean of every column.\<close>

definition mean_axis0 :: "matrix \<Rightarrow> real list" where
  "mean_axis0 m = map (\<lambda>j. sum_list (column m j) / real (length m)) [0..<length (hd m)]"

text \<open>
  \<^verbatim>\<open>np.cov(m, rowvar=False)\<close> with numpy's defaults \<^verbatim>\<open>bias=False\<close> and \<^verbatim>\<open>ddof=None\<close>, as
  numpy computes it: the matrix is transposed, so that a row holds one variable; the
  mean of each row is subtracted from it; the product with the transpose is scaled by
  \<open>1 / fact\<close>, where \<open>fact\<close> is the number of observations less \<open>ddof = 1\<close>.

  The result is \<open>None\<close> where numpy gives no \<open>D \<times> D\<close> matrix of numbers: for a single
  observation (\<open>fact = 0\<close>: the entries are NaN, or a scalar in older versions) and for a
  single variable (the result is squeezed to a scalar, on which \<^verbatim>\<open>@\<close> raises).
\<close>

definition np_cov :: "matrix \<Rightarrow> matrix option" where
  "np_cov m =
     (if length m < 2 \<or> length (hd m) < 2 then None
      else
        let X = np_T m;
            avg = map (\<lambda>r. sum_list r / real (length r)) X;
            fact = real (length (hd X)) - 1;
            X = map2 (\<lambda>r a. map (\<lambda>v. v - a) r) X avg;
            c = np_dot X (np_T X)
        in Some (mat_map (\<lambda>v. v * (1 / fact)) c))"

text \<open>
  \<^verbatim>\<open>calculate_fid\<close> from the two feature matrices on (line 73 to the end).
  \<^verbatim>\<open>scipy.linalg.sqrtm\<close> is a parameter: it gives a complex matrix, of which the code
  keeps the real part (for a real result the real part is the result itself). \<open>None\<close>
  stands for a call that yields no number because a covariance is not a matrix.
\<close>

definition fid_score :: "(matrix \<Rightarrow> complex list list) \<Rightarrow> matrix \<Rightarrow> matrix \<Rightarrow> real option" where
  "fid_score sqrtm real_features gen_features =
     (case np_cov real_features of
        None \<Rightarrow> None
      | Some sigma_real \<Rightarrow>
          (case np_cov gen_features of
             None \<Rightarrow> None
           | Some sigma_gen \<Rightarrow>
               (let mu_real = mean_axis0 real_features;
                    mu_gen = mean_axis0 gen_features;
                    diff = map2 (\<lambda>a b. a - b) mu_real mu_gen;
                    covmean = sqrtm (np_dot sigma_real sigma_gen);
                    covmean = map (map Re) covmean
                in Some (dotp diff diff +
                         np_trace (mat_sub (mat_add sigma_real sigma_gen)
                                     (mat_map (\<lambda>v. 2 * v) covmean))))))"

text \<open>
  \<^verbatim>\<open>calculate_fid\<close>: the real images are searched recursively, the generated ones are
  not; an exception of \<^verbatim>\<open>extract_features\<close> ends the call.
\<close>

definition calculate_fid ::
  "(matrix \<Rightarrow> complex list list) \<Rightarrow> (string \<Rightarrow> real list option) \<Rightarrow>
   string \<Rightarrow> entry list \<Rightarrow> string \<Rightarrow> entry list \<Rightarrow> error + real option" where
  "calculate_fid sqrtm process real_images_folder real_entries gen_images_folder gen_entries =
     (case snd (extract_features real_images_folder real_entries process True) of
        Inl e \<Rightarrow> Inl e
      | Inr real_features \<Rightarrow>
          (case snd (extract_features gen_images_folder gen_entries process False) of
             Inl e \<Rightarrow> Inl e
           | Inr gen_features \<Rightarrow> Inr (fid_score sqrtm real_features gen_features)))"

subsection \<open>What the specification says of FID\<close>

text \<open>The mean of column \<open>j\<close> of a feature matrix: component \<open>j\<close> of the mean vector.\<close>

definition col_mean :: "matrix \<Rightarrow> nat \<Rightarrow> real" where
  "col_mean m j = (\<Sum>k\<leftarrow>[0..<length m]. m ! k ! j) / real (length m)"

text \<open>
  The covariance of columns \<open>i\<close> and \<open>j\<close> with the rows as observations, the sum of the
  products of the deviations divided by \<open>N - ddof\<close>: \<open>ddof = 0\<close> is the population
  covariance (divisor \<open>N\<close>), \<open>ddof = 1\<close> the sample covariance (divisor \<open>N - 1\<close>).
\<close>

definition cov_entry :: "nat \<Rightarrow> matrix \<Rightarrow> nat \<Rightarrow> nat \<Rightarrow> real" where
  "cov_entry ddof m i j =
     (\<Sum>k\<leftarrow>[0..<length m]. (m ! k ! i - col_mean m i) * (m ! k ! j - col_mean m j))
       / (real (length m) - real ddof)"

definition cov_matrix :: "nat \<Rightarrow> matrix \<Rightarrow> matrix" where
  "cov_matrix ddof m =
     map (\<lambda>i. map (\<lambda>j. cov_entry ddof m i j) [0..<length (hd m)]) [0..<length (hd m)]"

definition population_cov :: "matrix \<Rightarrow> matrix" where
  "population_cov m = cov_matrix 0 m"

definition sample_cov :: "matrix \<Rightarrow> matrix" where
  "sample_cov m = cov_matrix 1 m"

text \<open>The product of two \<open>D \<times> D\<close> matrices.\<close>

definition mat_prod :: "nat \<Rightarrow> matrix \<Rightarrow> matrix \<Rightarrow> matrix" where
  "mat_prod D a b =
     map (\<lambda>i. map (\<lambda>j. \<Sum>l\<leftarrow>[0..<D]. a ! i ! l * b ! l ! j) [0..<D]) [0..<D]"

text \<open>
  The Frechet distance of the Gaussian summaries of two feature matrices of dimension
  \<open>D\<close>, for covariances with divisor \<open>N - ddof\<close>:
  \<open>\<parallel>\<mu>\<^sub>r - \<mu>\<^sub>g\<parallel>\<^sup>2 + trace (\<Sigma>\<^sub>r + \<Sigma>\<^sub>g - 2 Re (sqrtm (\<Sigma>\<^sub>r \<Sigma>\<^sub>g)))\<close>.
\<close>

definition frechet_distance ::
  "(matrix \<Rightarrow> complex list list) \<Rightarrow> nat \<Rightarrow> nat \<Rightarrow> matrix \<Rightarrow> matrix \<Rightarrow> real" where
  "frechet_distance sqrtm ddof D real_features gen_features =
     (let sigma_real = cov_matrix ddof real_features;
          sigma_gen = cov_matrix ddof gen_features;
          covmean = sqrtm (mat_prod D sigma_real sigma_gen)
      in (\<Sum>j\<leftarrow>[0..<D]. (col_mean real_features j - col_mean gen_features j)\<^sup>2) +
         (\<Sum>i\<leftarrow>[0..<D]. sigma_real ! i ! i + sigma_gen ! i ! i - 2 * Re (covmean ! i ! i)))"

text \<open>
  The principal square root of a diagonal matrix with no negative entry: the square
  root of every entry. The examples below call \<open>fid_score\<close> with it, on matrices whose
  covariance product is diagonal.
\<close>

definition sqrtm_diagonal :: "matrix \<Rightarrow> complex list list" where
  "sqrtm_diagonal a = map (map (\<lambda>v. complex_of_real (sqrt v))) a"

chapter \<open>Verification\<close>

section \<open>Mean IoU\<close>

lemma concat_map2_map2:
  "list_all2 (\<lambda>r s. length r = length s) a b \<Longrightarrow>
   concat (map2 (map2 f) a b) = map (\<lambda>(x, y). f x y) (zip (concat a) (concat b))"
  by (induction a b rule: list_all2_induct) (simp_all add: zip_append)

lemma same_shape_mask_eq:
  "same_shape a b \<Longrightarrow>
   list_all2 (\<lambda>r s. length r = length s) (mask_eq a c) (mask_eq b c)"
  by (simp add: same_shape_def mask_eq_def list_all2_map1 list_all2_map2)

lemma concat_mask_eq: "concat (mask_eq a c) = map (\<lambda>v. v = c) (concat a)"
  by (simp add: mask_eq_def map_concat)

lemma mask_sum_and:
  assumes "same_shape a b"
  shows "mask_sum (mask_and (mask_eq a c) (mask_eq b c)) = intersection_count a b c"
proof -
  have "concat (mask_and (mask_eq a c) (mask_eq b c)) =
        map (\<lambda>(x, y). x \<and> y) (zip (map (\<lambda>v. v = c) (concat a)) (map (\<lambda>v. v = c) (concat b)))"
    unfolding mask_and_def
    by (simp add: concat_map2_map2 [OF same_shape_mask_eq [OF assms]] concat_mask_eq)
  also have "\<dots> = map (\<lambda>(p, t). p = c \<and> t = c) (zip (concat a) (concat b))"
    by (simp add: zip_map_map case_prod_unfold)
  finally show ?thesis
    by (simp add: mask_sum_def intersection_count_def pixel_pairs_def filter_map
        comp_def case_prod_unfold)
qed

lemma mask_sum_or:
  assumes "same_shape a b"
  shows "mask_sum (mask_or (mask_eq a c) (mask_eq b c)) = union_count a b c"
proof -
  have "concat (mask_or (mask_eq a c) (mask_eq b c)) =
        map (\<lambda>(x, y). x \<or> y) (zip (map (\<lambda>v. v = c) (concat a)) (map (\<lambda>v. v = c) (concat b)))"
    unfolding mask_or_def
    by (simp add: concat_map2_map2 [OF same_shape_mask_eq [OF assms]] concat_mask_eq)
  also have "\<dots> = map (\<lambda>(p, t). p = c \<or> t = c) (zip (concat a) (concat b))"
    by (simp add: zip_map_map case_prod_unfold)
  finally show ?thesis
    by (simp add: mask_sum_def union_count_def pixel_pairs_def filter_map
        comp_def case_prod_unfold)
qed

lemma class_iou_counts:
  assumes "same_shape a b"
  shows "class_iou a b c =
         (if union_count a b c = 0 then None
          else Some (real (intersection_count a b c) / real (union_count a b c)))"
  by (simp add: class_iou_def Let_def mask_sum_and [OF assms] mask_sum_or [OF assms])

lemma nan_free_class_iou:
  assumes "same_shape a b"
  shows "nan_free (map (class_iou a b) cs) =
         map (\<lambda>c. real (intersection_count a b c) / real (union_count a b c))
           (filter (\<lambda>c. union_count a b c \<noteq> 0) cs)"
  by (induction cs) (simp_all add: class_iou_counts [OF assms])

text \<open>
  Claim C4. For two label grids of one shape and a class count \<open>C\<close>, \<open>compute_miou\<close>
  scores each class \<open>c\<close> of \<open>[0, C)\<close> by the number of pixels that both grids give to
  \<open>c\<close> over the number that either grid gives to \<open>c\<close>, and returns the mean of these
  scores over the classes whose union is not empty: a class with an empty union is left
  out of the sum and of the count. The result is NaN exactly when no class of \<open>[0, C)\<close>
  has a pixel in either grid.
\<close>

theorem compute_miou_defined_classes:
  assumes "same_shape pred_masks true_masks"
  shows "compute_miou pred_masks true_masks C = spec_miou pred_masks true_masks C \<and>
         (compute_miou pred_masks true_masks C = None \<longleftrightarrow>
            defined_classes pred_masks true_masks C = [])"
proof -
  have eq: "compute_miou pred_masks true_masks C = spec_miou pred_masks true_masks C"
    by (simp add: compute_miou_def np_nanmean_def spec_miou_def defined_classes_def
        nan_free_class_iou [OF assms] Let_def comp_def)
  moreover have "spec_miou pred_masks true_masks C = None \<longleftrightarrow>
      defined_classes pred_masks true_masks C = []"
    by (simp add: spec_miou_def Let_def)
  ultimately show ?thesis by simp
qed

theorem compute_miou_defined_classes_witness:
  "same_shape [[0, 1], [1, 1 :: int]] [[0, 0], [1, 1 :: int]] \<and>
   compute_miou [[0, 1], [1, 1]] [[0, 0], [1, 1]] 3 = Some (7 / 12) \<and>
   defined_classes [[0, 1], [1, 1]] [[0, 0], [1, 1]] 3 = [0, 1]"
proof -
  have shape: "same_shape [[0, 1], [1, 1 :: int]] [[0, 0], [1, 1 :: int]]"
    by (simp add: same_shape_def)
  have cs: "defined_classes [[0, 1], [1, 1]] [[0, 0], [1, 1]] 3 = [0, 1]"
    by (simp add: defined_classes_def union_count_def pixel_pairs_def upto.simps)
  have "spec_miou [[0, 1], [1, 1]] [[0, 0], [1, 1]] 3 = Some (7 / 12)"
    by (simp add: spec_miou_def cs Let_def intersection_count_def union_count_def
        pixel_pairs_def)
  with shape cs compute_miou_defined_classes [OF shape, of 3] show ?thesis by simp
qed

text \<open>
  Claim C9. The example of the specification: for \<open>pred = [[0,1],[1,1]]\<close>,
  \<open>true = [[0,0],[1,1]]\<close> and two classes, class 0 has intersection 1 and union 2
  (IoU \<open>1/2\<close>), class 1 has intersection 2 and union 3 (IoU \<open>2/3\<close>), and \<open>compute_miou\<close>
  returns their mean \<open>7/12\<close>.
\<close>

theorem compute_miou_example:
  "mask_sum (mask_and (mask_eq [[0, 1], [1, 1]] 0) (mask_eq [[0, 0], [1, 1]] 0)) = 1 \<and>
   mask_sum (mask_or (mask_eq [[0, 1], [1, 1]] 0) (mask_eq [[0, 0], [1, 1]] 0)) = 2 \<and>
   class_iou [[0, 1], [1, 1]] [[0, 0], [1, 1]] 0 = Some (1 / 2) \<and>
   mask_sum (mask_and (mask_eq [[0, 1], [1, 1]] 1) (mask_eq [[0, 0], [1, 1]] 1)) = 2 \<and>
   mask_sum (mask_or (mask_eq [[0, 1], [1, 1]] 1) (mask_eq [[0, 0], [1, 1]] 1)) = 3 \<and>
   class_iou [[0, 1], [1, 1]] [[0, 0], [1, 1]] 1 = Some (2 / 3) \<and>
   compute_miou [[0, 1], [1, 1]] [[0, 0], [1, 1]] 2 = Some (7 / 12)"
  by (simp add: compute_miou_def np_nanmean_def class_iou_def mask_sum_def
      mask_and_def mask_or_def mask_eq_def upto.simps Let_def)

section \<open>Average precision\<close>

subsection \<open>Lists as tables of their indices\<close>

lemma take_as_map_nth: "n \<le> length xs \<Longrightarrow> take n xs = map (\<lambda>i. xs ! i) [0..<n]"
  by (rule nth_equalityI) simp_all

lemma map2_map_upt:
  "map2 f (map g [0..<n]) (map h [0..<n]) = map (\<lambda>k. f (g k) (h k)) [0..<n]"
  by (rule nth_equalityI) simp_all

lemma tl_map_upt: "tl (map g [0..<n]) = map (\<lambda>k. g (Suc k)) [0..<n - 1]"
  by (rule nth_equalityI) (simp_all add: nth_tl)

lemma butlast_map_upt: "butlast (map g [0..<n]) = map g [0..<n - 1]"
  by (rule nth_equalityI) (simp_all add: nth_butlast)

lemma sum_list_indicator:
  "sum_list (map (\<lambda>j. if P j then 1 else 0) js) = real (length (filter P js))"
  by (induction js) simp_all

lemma sum_list_divide:
  fixes f :: "'a \<Rightarrow> real"
  shows "sum_list (map (\<lambda>k. f k / c) xs) = sum_list (map f xs) / c"
  by (induction xs) (simp_all add: add_divide_distrib)

lemma sum_list_co_indicator:
  "sum_list (map (\<lambda>j. 1 - (if P j then 1 else (0::real))) js) = real (length (filter (\<lambda>j. \<not> P j) js))"
  by (induction js) simp_all

subsection \<open>The library functions\<close>

lemma cumsum_from_eq:
  "cumsum_from a xs = map (\<lambda>k. a + sum_list (take (Suc k) xs)) [0..<length xs]"
proof (induction xs arbitrary: a)
  case Nil
  show ?case by simp
next
  case (Cons x xs)
  have "[0..<length (x # xs)] = 0 # map Suc [0..<length xs]"
    by (simp del: upt_Suc add: upt_conv_Cons map_Suc_upt)
  then show ?case
    by (simp del: upt_Suc add: Cons.IH comp_def add.assoc)
qed

lemma cumsum_eq: "cumsum xs = map (\<lambda>k. sum_list (take (Suc k) xs)) [0..<length xs]"
  by (simp add: cumsum_def cumsum_from_eq)

lemma length_argsort_desc [simp]: "length (argsort_desc v) = length v"
  by (simp add: argsort_desc_def)

lemma mset_argsort_desc: "mset (argsort_desc v) = mset [0..<length v]"
  by (simp add: argsort_desc_def)

lemma set_argsort_desc: "set (argsort_desc v) = {..<length v}"
  by (auto simp: argsort_desc_def)

lemma argsort_desc_nth_less: "k < length v \<Longrightarrow> argsort_desc v ! k < length v"
  using set_argsort_desc [of v] nth_mem [of k "argsort_desc v"] by auto


lemma sum_list_argsort_desc:
  fixes f :: "nat \<Rightarrow> real"
  shows "sum_list (map f (argsort_desc v)) = sum_list (map f [0..<length v])"
proof -
  have "mset (map f (argsort_desc v)) = mset (map f [0..<length v])"
    by (simp add: mset_argsort_desc)
  then have "sum_mset (mset (map f (argsort_desc v))) = sum_mset (mset (map f [0..<length v]))"
    by (rule arg_cong)
  then show ?thesis by (simp only: sum_mset_sum_list)
qed

lemma trapz_upt:
  "trapz (map P [0..<n]) (map R [0..<n]) =
   (\<Sum>k\<leftarrow>[0..<n - 1]. (R (Suc k) - R k) * (P k + P (Suc k)) / 2)"
proof -
  have "trapz (map P [0..<n]) (map R [0..<n]) =
        (\<Sum>k\<leftarrow>[0..<n - 1]. (P (Suc k) + P k) * (R (Suc k) - R k)) / 2"
    by (simp add: trapz_def tl_map_upt butlast_map_upt map2_map_upt)
  also have "\<dots> = (\<Sum>k\<leftarrow>[0..<n - 1]. (P (Suc k) + P k) * (R (Suc k) - R k) / 2)"
    by (simp add: sum_list_divide)
  also have "\<dots> = (\<Sum>k\<leftarrow>[0..<n - 1]. (R (Suc k) - R k) * (P k + P (Suc k)) / 2)"
    by (rule arg_cong [where f = sum_list]) (simp add: algebra_simps)
  finally show ?thesis .
qed

subsection \<open>One class of one sample\<close>

lemma collect_Inr: "collect (map (\<lambda>c. Inr (f c)) cs) = Inr (map f cs)"
  by (induction cs) simp_all

lemma one_hot_wf:
  assumes "wf_sample (real_mask, pred)"
  shows "one_hot real_mask (size1 pred) =
         Inr (map (\<lambda>l. map (\<lambda>c. if l = int c then 1 else 0) [0..<size1 pred]) real_mask)"
  using assms by (simp add: wf_sample_def one_hot_def)

lemma column_one_hot:
  assumes "c < C"
  shows "column (map (\<lambda>l. map (\<lambda>c. if l = int c then 1 else 0) [0..<C]) real_mask) c =
         map (\<lambda>l. if l = int c then 1 else (0::real)) real_mask"
  using assms by (simp add: column_def)

lemma tp_sorted:
  fixes real_mask :: label_mask
  assumes len: "length order = length real_mask"
      and bound: "\<And>k. k < length real_mask \<Longrightarrow> order ! k < length real_mask"
  shows "cumsum (map (\<lambda>i. map (\<lambda>l. if l = c then 1 else 0) real_mask ! i) order) =
         map (\<lambda>k. real (length (filter (\<lambda>j. real_mask ! (order ! j) = c) [0..<Suc k])))
           [0..<length real_mask]"
proof -
  let ?h = "\<lambda>l. if l = c then 1 else (0::real)"
  let ?s = "map (\<lambda>i. map ?h real_mask ! i) order"
  have "sum_list (take (Suc k) ?s) =
        real (length (filter (\<lambda>j. real_mask ! (order ! j) = c) [0..<Suc k]))"
    if "k < length real_mask" for k
  proof -
    have "take (Suc k) ?s = map (\<lambda>j. ?s ! j) [0..<Suc k]"
      using that len by (intro take_as_map_nth) simp
    also have "\<dots> = map (\<lambda>j. if real_mask ! (order ! j) = c then 1 else 0) [0..<Suc k]"
      using that len bound by (intro map_cong) auto
    finally show ?thesis by (simp only: sum_list_indicator)
  qed
  then show ?thesis
    unfolding cumsum_eq using len by (intro nth_equalityI) simp_all
qed

lemma fp_sorted:
  fixes real_mask :: label_mask
  assumes len: "length order = length real_mask"
      and bound: "\<And>k. k < length real_mask \<Longrightarrow> order ! k < length real_mask"
  shows "cumsum (map (\<lambda>x. 1 - x) (map (\<lambda>i. map (\<lambda>l. if l = c then 1 else 0) real_mask ! i) order)) =
         map (\<lambda>k. real (length (filter (\<lambda>j. real_mask ! (order ! j) \<noteq> c) [0..<Suc k])))
           [0..<length real_mask]"
proof -
  let ?h = "\<lambda>l. if l = c then 1 else (0::real)"
  let ?s = "map (\<lambda>x. 1 - x) (map (\<lambda>i. map ?h real_mask ! i) order)"
  have "sum_list (take (Suc k) ?s) =
        real (length (filter (\<lambda>j. real_mask ! (order ! j) \<noteq> c) [0..<Suc k]))"
    if "k < length real_mask" for k
  proof -
    have "take (Suc k) ?s = map (\<lambda>j. ?s ! j) [0..<Suc k]"
      using that len by (intro take_as_map_nth) simp
    also have "\<dots> = map (\<lambda>j. 1 - (if real_mask ! (order ! j) = c then 1 else 0)) [0..<Suc k]"
      using that len bound by (intro map_cong) auto
    finally show ?thesis by (simp only: sum_list_co_indicator)
  qed
  then show ?thesis
    unfolding cumsum_eq using len by (intro nth_equalityI) simp_all
qed

lemma positives_sorted:
  fixes real_mask :: label_mask
  assumes "length v = length real_mask"
  shows "sum_list (map (\<lambda>i. map (\<lambda>l. if l = c then 1 else 0) real_mask ! i) (argsort_desc v)) =
         real (length (filter (\<lambda>l. l = c) real_mask))"
proof -
  let ?col = "map (\<lambda>l. if l = c then 1 else (0::real)) real_mask"
  have "sum_list (map (\<lambda>i. ?col ! i) (argsort_desc v)) =
        sum_list (map (\<lambda>i. ?col ! i) [0..<length ?col])"
    using assms by (simp add: sum_list_argsort_desc)
  also have "\<dots> = sum_list ?col"
    by (simp only: map_nth)
  also have "\<dots> = real (length (filter (\<lambda>l. l = c) real_mask))"
    by (rule sum_list_indicator)
  finally show ?thesis .
qed

lemma class_curve_wf:
  assumes wf: "wf_sample (real_mask, pred)" and c: "c < size1 pred"
  shows "class_curve
           (column (map (\<lambda>l. map (\<lambda>c. if l = int c then 1 else 0) [0..<size1 pred]) real_mask) c)
           (column (pred_flat pred) c) =
         Inr (map (class_precision real_mask pred c) [0..<length real_mask],
              map (class_recall real_mask pred c) [0..<length real_mask],
              map (\<lambda>i. column (pred_flat pred) c ! i) (ranking pred c))"
proof -
  let ?N = "length real_mask"
  let ?v = "column (pred_flat pred) c"
  let ?order = "argsort_desc ?v"
  let ?col = "map (\<lambda>l. if l = int c then 1 else (0::real)) real_mask"
  let ?s = "map (\<lambda>i. ?col ! i) ?order"
  have lv: "length ?v = ?N"
    using wf by (simp add: wf_sample_def column_def)
  have lo: "length ?order = ?N"
    using lv by simp
  have bound: "?order ! k < ?N" if "k < ?N" for k
    using argsort_desc_nth_less [of k ?v] that lv by simp
  have tp: "cumsum ?s = map (\<lambda>k. real (tp_at real_mask pred c k)) [0..<?N]"
    using tp_sorted [OF lo bound, of "int c"] by (simp add: tp_at_def ranking_def)
  have fp: "cumsum (map (\<lambda>x. 1 - x) ?s) = map (\<lambda>k. real (fp_at real_mask pred c k)) [0..<?N]"
    using fp_sorted [OF lo bound, of "int c"] by (simp add: fp_at_def ranking_def)
  have pos: "sum_list ?s = real (total_positives real_mask c)"
    using positives_sorted [OF lv, of "int c"] by (simp add: total_positives_def)
  have prec: "map2 (\<lambda>t f. t / (t + f + 1 / 10 ^ 8)) (cumsum ?s) (cumsum (map (\<lambda>x. 1 - x) ?s)) =
              map (class_precision real_mask pred c) [0..<?N]"
    unfolding tp fp map2_map_upt by (simp add: class_precision_def)
  have rec: "map (\<lambda>t. t / (sum_list ?s + 1 / 10 ^ 8)) (cumsum ?s) =
             map (class_recall real_mask pred c) [0..<?N]"
    unfolding tp pos by (simp add: class_recall_def)
  have "class_curve ?col ?v = Inr (map (class_precision real_mask pred c) [0..<?N],
          map (class_recall real_mask pred c) [0..<?N], map (\<lambda>i. ?v ! i) ?order)"
    unfolding class_curve_def Let_def prec rec using lv by simp
  then show ?thesis
    unfolding column_one_hot [OF c] ranking_def .
qed

subsection \<open>The classes blended, and the loop over the samples\<close>

lemma stack_mean_upt:
  assumes "0 < C"
  shows "stack_mean (map (\<lambda>c. map (g c) [0..<N]) [0..<C]) =
         Inr (map (\<lambda>k. (\<Sum>c\<leftarrow>[0..<C]. g c k) / real C) [0..<N])"
proof -
  let ?ts = "map (\<lambda>c. map (g c) [0..<N]) [0..<C]"
  have hd: "length (hd ?ts) = N"
    using assms by (simp add: hd_map)
  have at: "map (\<lambda>t. t ! k) ?ts = map (\<lambda>c. g c k) [0..<C]" if "k < N" for k
    using that by simp
  have "map (\<lambda>k. sum_list (map (\<lambda>t. t ! k) ?ts) / real (length ?ts)) [0..<N] =
        map (\<lambda>k. (\<Sum>c\<leftarrow>[0..<C]. g c k) / real C) [0..<N]"
    by (intro map_cong refl) (simp add: at del: map_map)
  moreover have "?ts \<noteq> []"
    using assms by simp
  ultimately show ?thesis
    unfolding stack_mean_def hd by (simp only: if_False)
qed

lemma stack_mean_nonempty: "ts \<noteq> [] \<Longrightarrow> \<exists>m. stack_mean ts = Inr m"
  by (simp add: stack_mean_def)

lemma precision_recall_curve_torch_wf:
  assumes wf: "wf_sample (real_mask, pred)"
  shows "\<exists>t. precision_recall_curve_torch
           (map (\<lambda>l. map (\<lambda>c. if l = int c then 1 else 0) [0..<size1 pred]) real_mask)
           (size1 pred) (pred_flat pred) =
         Inr (map (blended_precision real_mask pred) [0..<length real_mask],
              map (blended_recall real_mask pred) [0..<length real_mask], t)"
proof -
  let ?C = "size1 pred"
  let ?N = "length real_mask"
  let ?oh = "map (\<lambda>l. map (\<lambda>c. if l = int c then 1 else 0) [0..<?C]) real_mask"
  let ?curve = "\<lambda>c. (map (class_precision real_mask pred c) [0..<?N],
                     map (class_recall real_mask pred c) [0..<?N],
                     map (\<lambda>i. column (pred_flat pred) c ! i) (ranking pred c))"
  have C: "0 < ?C"
    using wf by (simp add: wf_sample_def)
  have "map (\<lambda>c. class_curve (column ?oh c) (column (pred_flat pred) c)) [0..<?C] =
        map (\<lambda>c. Inr (?curve c)) [0..<?C]"
    by (intro map_cong refl) (simp add: class_curve_wf [OF wf])
  then have coll: "collect (map (\<lambda>c. class_curve (column ?oh c) (column (pred_flat pred) c)) [0..<?C]) =
        Inr (map ?curve [0..<?C])"
    by (simp only: collect_Inr)
  have p: "stack_mean (map (\<lambda>(p, r, t). p) (map ?curve [0..<?C])) =
           Inr (map (blended_precision real_mask pred) [0..<?N])"
    using stack_mean_upt [OF C, of "class_precision real_mask pred" ?N]
    by (simp add: comp_def blended_precision_def)
  have r: "stack_mean (map (\<lambda>(p, r, t). r) (map ?curve [0..<?C])) =
           Inr (map (blended_recall real_mask pred) [0..<?N])"
    using stack_mean_upt [OF C, of "class_recall real_mask pred" ?N]
    by (simp add: comp_def blended_recall_def)
  have "map (\<lambda>(p, r, t). t) (map ?curve [0..<?C]) \<noteq> []"
    using C by simp
  then obtain m where t: "stack_mean (map (\<lambda>(p, r, t). t) (map ?curve [0..<?C])) = Inr m"
    using stack_mean_nonempty by blast
  show ?thesis
    unfolding precision_recall_curve_torch_def coll by (simp only: p r t sum.case) blast
qed

lemma sample_ap_wf:
  assumes "admitted (real_mask, pred)"
  shows "sample_ap real_mask pred = Inr (blended_ap (flat_sample (real_mask, pred)))"
proof -
  let ?flat = "view_flat real_mask"
  let ?pm = "\<lparr>size1 = shape pred ! 1, pred_flat = permute_reshape pred\<rparr>"
  have wf: "wf_sample (?flat, ?pm)" and dims: "length (shape pred) = 4"
    using assms by (simp_all add: admitted_def flat_sample_def)
  from wf have C: "0 < shape pred ! 1"
    by (simp add: wf_sample_def)
  obtain t where "precision_recall_curve_torch
           (map (\<lambda>l. map (\<lambda>c. if l = int c then 1 else 0) [0..<size1 ?pm]) ?flat)
           (size1 ?pm) (pred_flat ?pm) =
         Inr (map (blended_precision ?flat ?pm) [0..<length ?flat],
              map (blended_recall ?flat ?pm) [0..<length ?flat], t)"
    using precision_recall_curve_torch_wf [OF wf] by blast
  then show ?thesis
    using one_hot_wf [OF wf] dims C
    by (simp add: sample_ap_def trapz_upt blended_ap_def flat_sample_def)
qed

lemma ap_loop_wf:
  assumes "list_all admitted samples"
  shows "ap_loop samples ap_score total_samples =
         Inr (ap_score + (\<Sum>s\<leftarrow>samples. blended_ap (flat_sample s)),
              total_samples + length samples)"
  using assms
proof (induction samples arbitrary: ap_score total_samples)
  case Nil
  show ?case by simp
next
  case (Cons s samples)
  obtain real_mask pred where s: "s = (real_mask, pred)"
    by (cases s)
  from Cons.prems have "admitted (real_mask, pred)" and "list_all admitted samples"
    by (simp_all add: s)
  then show ?case
    by (simp add: s sample_ap_wf Cons.IH add.assoc)
qed

lemma compute_ap_wf:
  assumes "list_all admitted (zip real_masks pred_probs)"
  shows "compute_ap real_masks pred_probs = Inr (mean_ap (zip real_masks pred_probs))"
proof (cases "zip real_masks pred_probs = []")
  case True
  show ?thesis unfolding compute_ap_def mean_ap_def True by simp
next
  case False
  then have "0 < length (zip real_masks pred_probs)"
    by (simp del: length_zip)
  with False show ?thesis
    by (simp add: compute_ap_def mean_ap_def ap_loop_wf [OF assms] comp_def del: length_zip)
qed

subsection \<open>Tensors of the shapes that the data model names\<close>

lemma length_concat_const:
  assumes "\<And>x. x \<in> set xs \<Longrightarrow> length (f x) = n"
  shows "length (concat (map f xs)) = length xs * n"
  using assms by (induction xs) simp_all

lemma permute_reshape_shape:
  assumes "shape pred = [B, C, H, W]"
  shows "length (permute_reshape pred) = B * (H * W)"
    and "list_all (\<lambda>r. length r = C) (permute_reshape pred)"
proof -
  show "length (permute_reshape pred) = B * (H * W)"
    unfolding permute_reshape_def Let_def assms
    by (simp add: length_concat_const)
  show "list_all (\<lambda>r. length r = C) (permute_reshape pred)"
    unfolding permute_reshape_def Let_def assms
    by (auto simp: list_all_iff)
qed

lemma admitted_shapes:
  assumes "shape real_mask = [B, H, W]" and "shape pred = [B, C, H, W]"
    and "wf_tensor real_mask" and "wf_tensor pred" and "0 < C"
    and "list_all (\<lambda>l. 0 \<le> l \<and> l < int C) (data real_mask)"
  shows "admitted (real_mask, pred)"
  using assms permute_reshape_shape [OF assms(2)]
  by (simp add: admitted_def wf_sample_def flat_sample_def view_flat_def wf_tensor_def)


lemma example_sample:
  "flat_sample (\<lparr>shape = [1, 1, 2], data = [0, 0]\<rparr>,
                \<lparr>shape = [1, 2, 1, 2], data = [9 / 10, 4 / 5, 1 / 10, 1 / 5]\<rparr>) =
   ([0, 0], \<lparr>size1 = 2, pred_flat = [[9 / 10, 1 / 10], [4 / 5, 1 / 5]]\<rparr>)"
  by (simp add: flat_sample_def view_flat_def permute_reshape_def upt_rec)

lemma example_blended_ap:
  "blended_ap ([0, 0], \<lparr>size1 = 2, pred_flat = [[9 / 10, 1 / 10], [4 / 5, 1 / 5]]\<rparr>) =
   500000003750000000000000 / 4000000080000000500000001"
proof -
  let ?P = "\<lparr>size1 = 2, pred_flat = [[9 / 10, 1 / 10], [4 / 5, 1 / 5]]\<rparr>"
  have r0: "ranking ?P 0 = [0, 1]"
    by (simp add: ranking_def column_def argsort_desc_def upt_rec)
  have r1: "ranking ?P (Suc 0) = [1, 0]"
    by (simp add: ranking_def column_def argsort_desc_def upt_rec)
  have counts:
    "tp_at [0, 0] ?P 0 0 = 1" "tp_at [0, 0] ?P 0 (Suc 0) = 2"
    "fp_at [0, 0] ?P 0 0 = 0" "fp_at [0, 0] ?P 0 (Suc 0) = 0"
    "tp_at [0, 0] ?P (Suc 0) 0 = 0" "tp_at [0, 0] ?P (Suc 0) (Suc 0) = 0"
    "fp_at [0, 0] ?P (Suc 0) 0 = 1" "fp_at [0, 0] ?P (Suc 0) (Suc 0) = 2"
    "total_positives [0, 0] 0 = 2" "total_positives [0, 0] (Suc 0) = 0"
    by (simp_all add: tp_at_def fp_at_def total_positives_def r0 r1 upt_rec)
  show ?thesis
    by (simp add: blended_ap_def blended_recall_def blended_precision_def
        class_recall_def class_precision_def counts upt_rec)
qed

lemma example_admitted:
  "admitted (\<lparr>shape = [1, 1, 2], data = [0, 0]\<rparr>,
             \<lparr>shape = [1, 2, 1, 2], data = [9 / 10, 4 / 5, 1 / 10, 1 / 5]\<rparr>)"
  unfolding admitted_def example_sample by (simp add: wf_tensor_def wf_sample_def)


text \<open>Claim C8. On empty input sequences \<open>compute_ap\<close> raises nothing and returns 0.\<close>

theorem compute_ap_empty: "compute_ap [] [] = Inr 0"
  by (simp add: compute_ap_def)

text \<open>
  Claim C10. When the two sequences have different lengths, \<open>compute_ap\<close> reads the
  first \<open>min (length real_masks) (length pred_probs)\<close> pairs only: its result, an
  exception included, is the one it gives on the two sequences cut to that length, and
  when these pairs are admitted by the data model it is the mean of their APs. The
  entries beyond that length have no effect.
\<close>

theorem compute_ap_shorter_sequence:
  "compute_ap real_masks pred_probs =
     compute_ap (take (min (length real_masks) (length pred_probs)) real_masks)
                (take (min (length real_masks) (length pred_probs)) pred_probs) \<and>
   (list_all admitted (zip real_masks pred_probs) \<longrightarrow>
      compute_ap real_masks pred_probs =
        Inr (mean_ap (zip (take (min (length real_masks) (length pred_probs)) real_masks)
                          (take (min (length real_masks) (length pred_probs)) pred_probs))))"
proof -
  let ?n = "min (length real_masks) (length pred_probs)"
  have "zip (take ?n real_masks) (take ?n pred_probs) = take ?n (zip real_masks pred_probs)"
    by (simp only: take_zip)
  also have "\<dots> = zip real_masks pred_probs"
    by simp
  finally have z: "zip (take ?n real_masks) (take ?n pred_probs) = zip real_masks pred_probs" .
  have "compute_ap real_masks pred_probs = compute_ap (take ?n real_masks) (take ?n pred_probs)"
    unfolding compute_ap_def z ..
  moreover have "compute_ap real_masks pred_probs =
      Inr (mean_ap (zip (take ?n real_masks) (take ?n pred_probs)))"
    if "list_all admitted (zip real_masks pred_probs)"
    unfolding z using compute_ap_wf [OF that] .
  ultimately show ?thesis by blast
qed

theorem compute_ap_shorter_sequence_witness:
  "compute_ap [\<lparr>shape = [1, 1, 2], data = [0, 0]\<rparr>, \<lparr>shape = [1, 1, 1], data = [7]\<rparr>]
     [\<lparr>shape = [1, 2, 1, 2], data = [9 / 10, 4 / 5, 1 / 10, 1 / 5]\<rparr>] =
     compute_ap [\<lparr>shape = [1, 1, 2], data = [0, 0]\<rparr>]
       [\<lparr>shape = [1, 2, 1, 2], data = [9 / 10, 4 / 5, 1 / 10, 1 / 5]\<rparr>] \<and>
   list_all admitted
     (zip [\<lparr>shape = [1, 1, 2], data = [0, 0]\<rparr>, \<lparr>shape = [1, 1, 1], data = [7]\<rparr>]
          [\<lparr>shape = [1, 2, 1, 2], data = [9 / 10, 4 / 5, 1 / 10, 1 / 5]\<rparr>]) \<and>
   compute_ap [\<lparr>shape = [1, 1, 2], data = [0, 0]\<rparr>, \<lparr>shape = [1, 1, 1], data = [7]\<rparr>]
     [\<lparr>shape = [1, 2, 1, 2], data = [9 / 10, 4 / 5, 1 / 10, 1 / 5]\<rparr>] =
     Inr (500000003750000000000000 / 4000000080000000500000001)"
proof -
  let ?real = "\<lparr>shape = [1, 1, 2], data = [0, 0 :: int]\<rparr>"
  let ?extra = "\<lparr>shape = [1, 1, 1], data = [7 :: int]\<rparr>"
  let ?pred = "\<lparr>shape = [1, 2, 1, 2], data = [9 / 10, 4 / 5, 1 / 10, 1 / 5 :: real]\<rparr>"
  let ?n = "min (length [?real, ?extra]) (length [?pred])"
  have wf: "list_all admitted (zip [?real, ?extra] [?pred])"
    using example_admitted by simp
  have cut: "take ?n [?real, ?extra] = [?real]" "take ?n [?pred] = [?pred]"
    by simp_all
  have "mean_ap (zip (take ?n [?real, ?extra]) (take ?n [?pred])) =
      blended_ap (flat_sample (?real, ?pred))"
    unfolding cut by (simp add: mean_ap_def)
  then have m: "mean_ap (zip (take ?n [?real, ?extra]) (take ?n [?pred])) =
      500000003750000000000000 / 4000000080000000500000001"
    unfolding example_sample example_blended_ap .
  have e1: "compute_ap [?real, ?extra] [?pred] = compute_ap [?real] [?pred]"
    using compute_ap_shorter_sequence [of "[?real, ?extra]" "[?pred]"] unfolding cut by blast
  have "compute_ap [?real, ?extra] [?pred] =
      Inr (mean_ap (zip (take ?n [?real, ?extra]) (take ?n [?pred])))"
    using compute_ap_shorter_sequence [of "[?real, ?extra]" "[?pred]"] wf by blast
  then have e2: "compute_ap [?real, ?extra] [?pred] =
      Inr (500000003750000000000000 / 4000000080000000500000001)"
    unfolding m .
  from e1 wf e2 show ?thesis by (intro conjI)
qed

section \<open>Feature extraction\<close>









lemma image_files_example:
  "image_files ''data''
     [File ''a.PNG'', File ''notes.txt'', Dir ''sub'' [File ''b.jpeg'', File ''c.gif'']] True =
     [''data/a.PNG'', ''data/sub/b.jpeg''] \<and>
   image_files ''data''
     [File ''a.PNG'', File ''notes.txt'', Dir ''sub'' [File ''b.jpeg'', File ''c.gif'']] False =
     [''data/a.PNG'']"
  by (simp add: image_files_def os_walk_def listdir_def path_join_def is_image_name_def
      endswith_def lower_def lower_char_def char_of_eq_iff)

subsection \<open>The loop over the files\<close>

lemma feature_loop_eq:
  "feature_loop process files (features, warnings) =
   (features @ List.map_filter process files, warnings @ filter (fails process) files)"
proof (induction files arbitrary: features warnings)
  case Nil
  show ?case by (simp add: List.map_filter_simps)
next
  case (Cons p files)
  show ?case
    by (cases "process p") (simp_all add: Cons.IH List.map_filter_simps fails_def)
qed

lemma map_filter_empty_iff:
  "List.map_filter process files = [] \<longleftrightarrow> list_all (fails process) files"
  by (induction files) (auto simp: List.map_filter_simps fails_def split: option.splits)

lemma extract_features_eq:
  "extract_features image_folder entries process recursive =
   (let files = image_files image_folder entries recursive
    in if files = [] then ([], Inl NoImageFilesFound)
       else if list_all (fails process) files then (files, Inl UnableToExtractFeatures)
       else (filter (fails process) files, Inr (List.map_filter process files)))"
proof -
  have "filter (fails process) files = files" if "list_all (fails process) files" for files
    using that by (simp add: list_all_iff)
  then show ?thesis
    by (simp add: extract_features_def Let_def feature_loop_eq map_filter_empty_iff)
qed

text \<open>
  Claim C7. \<open>extract_features\<close> raises in two cases only, each time the
  specification's \<open>EmptyInputError\<close>: when no file name is selected, and when every
  selected file fails to be processed. In every other case it returns the rows of the
  files that were processed, in their order, and the files that failed are those, and
  only those, for which the warning is printed.
\<close>

theorem extract_features_empty_input:
  "((\<exists>e. snd (extract_features image_folder entries process recursive) = Inl e) \<longleftrightarrow>
      image_files image_folder entries recursive = [] \<or>
      list_all (fails process) (image_files image_folder entries recursive)) \<and>
   (case extract_features image_folder entries process recursive of
      (warnings, Inl e) \<Rightarrow> EmptyInputError e
    | (warnings, Inr features) \<Rightarrow>
        features = List.map_filter process (image_files image_folder entries recursive) \<and>
        warnings = filter (fails process) (image_files image_folder entries recursive))"
  by (simp add: extract_features_eq Let_def EmptyInputError_def)

lemma extract_features_example:
  "extract_features ''data'' [File ''a.png'', File ''b.jpg'', File ''c.txt'']
     (\<lambda>p. if p = ''data/a.png'' then None else Some [1, 2]) False =
     ([''data/a.png''], Inr [[1, 2]]) \<and>
   extract_features ''data'' [File ''a.png'', File ''b.jpg'', File ''c.txt'']
     (\<lambda>p. None) False = ([''data/a.png'', ''data/b.jpg''], Inl UnableToExtractFeatures) \<and>
   extract_features ''data'' [File ''c.txt''] (\<lambda>p. Some [1, 2]) False =
     ([], Inl NoImageFilesFound)"
  by (simp add: extract_features_def image_files_def listdir_def path_join_def
      is_image_name_def endswith_def lower_def lower_char_def char_of_eq_iff)

section \<open>Matrices\<close>

lemma map_as_map_nth: "map f xs = map (\<lambda>i. f (xs ! i)) [0..<length xs]"
  by (rule nth_equalityI) simp_all

lemma upt_Suc_shift: "[0..<Suc k] = 0 # map Suc [0..<k]"
  by (simp del: upt_Suc add: upt_conv_Cons map_Suc_upt)

lemma has_shape_row: "has_shape N D m \<Longrightarrow> i < N \<Longrightarrow> length (m ! i) = D"
  by (simp add: has_shape_def list_all_length)

lemma has_shape_hd: "has_shape N D m \<Longrightarrow> 0 < N \<Longrightarrow> length (hd m) = D"
  using has_shape_row [of N D m 0] by (cases m) (simp_all add: has_shape_def)

lemma dotp_sum:
  assumes "length u = n" and "length v = n"
  shows "dotp u v = (\<Sum>i\<leftarrow>[0..<n]. u ! i * v ! i)"
proof -
  have "map2 (\<lambda>a b. a * b) u v = map (\<lambda>i. u ! i * v ! i) [0..<n]"
    using assms by (intro nth_equalityI) simp_all
  then show ?thesis by (simp add: dotp_def)
qed

lemma column_index:
  assumes "has_shape N D m"
  shows "column m j = map (\<lambda>i. m ! i ! j) [0..<N]"
  using assms map_as_map_nth [of "\<lambda>r. r ! j" m] by (simp add: column_def has_shape_def)

lemma np_T_index:
  assumes "has_shape N D m" and "0 < N"
  shows "np_T m = map (\<lambda>j. map (\<lambda>i. m ! i ! j) [0..<N]) [0..<D]"
proof -
  have "m \<noteq> []"
    using assms by (auto simp: has_shape_def)
  then show ?thesis
    by (simp add: np_T_def has_shape_hd [OF assms] column_index [OF assms(1)])
qed

lemma np_dot_T_index:
  assumes x: "has_shape M D x" and y: "has_shape N D y" and "0 < N" and "0 < D"
  shows "np_dot x (np_T y) = map (\<lambda>i. map (\<lambda>j. dotp (x ! i) (y ! j)) [0..<N]) [0..<M]"
proof -
  let ?B = "np_T y"
  have B: "?B = map (\<lambda>j. map (\<lambda>i. y ! i ! j) [0..<N]) [0..<D]"
    by (rule np_T_index [OF y \<open>0 < N\<close>])
  have hd: "length (hd ?B) = N"
    using \<open>0 < D\<close> by (simp add: B hd_map)
  have col: "column ?B j = y ! j" if "j < N" for j
  proof -
    have "column ?B j = map (\<lambda>l. y ! j ! l) [0..<D]"
      using that by (simp add: B column_def)
    also have "\<dots> = y ! j"
      using has_shape_row [OF y that] map_nth [of "y ! j"] by simp
    finally show ?thesis .
  qed
  have "np_dot x ?B = map (\<lambda>r. map (\<lambda>j. dotp r (y ! j)) [0..<N]) x"
    unfolding np_dot_def hd by (intro map_cong refl) (simp add: col)
  also have "\<dots> = map (\<lambda>i. map (\<lambda>j. dotp (x ! i) (y ! j)) [0..<N]) [0..<M]"
    using x map_as_map_nth [of "\<lambda>r. map (\<lambda>j. dotp r (y ! j)) [0..<N]" x]
    by (simp add: has_shape_def)
  finally show ?thesis .
qed

lemma kernel_matrix_index:
  assumes x: "has_shape M D x" and y: "has_shape N D y" and "0 < N" and "0 < D"
  shows "kernel_matrix D x y =
         map (\<lambda>i. map (\<lambda>j. poly_kernel D (x ! i) (y ! j)) [0..<N]) [0..<M]"
proof -
  have "dotp (x ! i) (y ! j) = (\<Sum>l\<leftarrow>[0..<D]. x ! i ! l * y ! j ! l)" if "i < M" "j < N" for i j
    using that by (intro dotp_sum has_shape_row [OF x] has_shape_row [OF y])
  then show ?thesis
    unfolding kernel_matrix_def np_dot_T_index [OF assms] mat_map_def
    by (simp add: poly_kernel_def)
qed

lemma mat_sum_index:
  "mat_sum (map (\<lambda>i. map (\<lambda>j. f i j) [0..<N]) [0..<M]) = (\<Sum>i\<leftarrow>[0..<M]. \<Sum>j\<leftarrow>[0..<N]. f i j)"
  by (simp add: mat_sum_def comp_def)

lemma mat_add_index:
  "mat_add (map (\<lambda>i. map (\<lambda>j. f i j) [0..<N]) [0..<M]) (map (\<lambda>i. map (\<lambda>j. g i j) [0..<N]) [0..<M]) =
   map (\<lambda>i. map (\<lambda>j. f i j + g i j) [0..<N]) [0..<M]"
  by (simp add: mat_add_def map2_map_upt)

lemma np_trace_index:
  assumes "0 < M"
  shows "np_trace (map (\<lambda>i. map (\<lambda>j. f i j) [0..<M]) [0..<M]) = (\<Sum>i\<leftarrow>[0..<M]. f i i)"
proof -
  let ?a = "map (\<lambda>i. map (\<lambda>j. f i j) [0..<M]) [0..<M]"
  have "np_trace ?a = sum_list (map (\<lambda>i. ?a ! i ! i) [0..<M])"
    using assms by (simp add: np_trace_def hd_map)
  also have "\<dots> = (\<Sum>i\<leftarrow>[0..<M]. f i i)"
    by (intro arg_cong [where f = sum_list] map_cong refl) simp
  finally show ?thesis .
qed

section \<open>Kernel Inception Distance\<close>

lemma subset_estimate_spec:
  assumes x: "has_shape (nat m) D x" and y: "has_shape (nat m) D y"
    and m: "2 \<le> m" and D: "0 < D"
  shows "subset_estimate D m x y = spec_estimate D (nat m) x y"
proof -
  have pos: "0 < nat m"
    using m by simp
  have m1: "real_of_int (m - 1) = real (nat m) - 1" and m0: "real_of_int m = real (nat m)"
    using m by simp_all
  show ?thesis
    unfolding subset_estimate_def Let_def
      kernel_matrix_index [OF x x pos D] kernel_matrix_index [OF y y pos D]
      kernel_matrix_index [OF x y pos D] mat_add_index mat_sum_index
      np_trace_index [OF pos] spec_estimate_def m1 m0 ..
qed

lemma selected_rows:
  assumes "has_shape N D features" and "valid_draw N m idx"
  shows "has_shape m D (map (\<lambda>i. features ! i) idx)"
  using assms
  by (auto simp: has_shape_def valid_draw_def list_all_iff)

lemma valid_draws_Suc:
  "valid_draws choice num_real num_gen m g (Suc k) \<longleftrightarrow>
   valid_draw num_real m (fst (choice g num_real m)) \<and>
   valid_draw num_gen m (fst (choice (snd (choice g num_real m)) num_gen m)) \<and>
   valid_draws choice num_real num_gen m (snd (choice (snd (choice g num_real m)) num_gen m)) k"
  unfolding valid_draws_def upt_Suc_shift
  by (simp add: list.pred_map comp_def idx_real_at_def idx_gen_at_def)

lemma kid_loop_sum:
  assumes real: "has_shape num_real D real_features"
    and gen: "has_shape num_gen D gen_features"
    and m: "2 \<le> m" and D: "0 < D"
    and draws: "valid_draws choice num_real num_gen (nat m) g k"
  shows "fst (kid_loop choice real_features gen_features D m k g t) =
         t + (\<Sum>j\<leftarrow>[0..<k]. estimate_at choice g real_features gen_features D (nat m) j)"
  using draws
proof (induction k arbitrary: g t)
  case 0
  show ?case by simp
next
  case (Suc k)
  have nr: "length real_features = num_real" and ng: "length gen_features = num_gen"
    using real gen by (simp_all add: has_shape_def)
  obtain idx_real g1 where c1: "choice g num_real (nat m) = (idx_real, g1)"
    by (cases "choice g num_real (nat m)")
  obtain idx_gen g2 where c2: "choice g1 num_gen (nat m) = (idx_gen, g2)"
    by (cases "choice g1 num_gen (nat m)")
  from Suc.prems have v1: "valid_draw num_real (nat m) idx_real"
    and v2: "valid_draw num_gen (nat m) idx_gen"
    and rest: "valid_draws choice num_real num_gen (nat m) g2 k"
    by (simp_all add: valid_draws_Suc c1 c2)
  let ?x = "map (\<lambda>i. gen_features ! i) idx_gen"
  let ?y = "map (\<lambda>i. real_features ! i) idx_real"
  have est: "subset_estimate D m ?x ?y = spec_estimate D (nat m) ?x ?y"
    by (intro subset_estimate_spec selected_rows [OF gen v2] selected_rows [OF real v1] m D)
  have first: "estimate_at choice g real_features gen_features D (nat m) 0 =
      spec_estimate D (nat m) ?x ?y"
    by (simp add: estimate_at_def idx_gen_at_def idx_real_at_def nr ng c1 c2)
  have later: "estimate_at choice g real_features gen_features D (nat m) (Suc j) =
      estimate_at choice g2 real_features gen_features D (nat m) j" for j
    by (simp add: estimate_at_def idx_gen_at_def idx_real_at_def nr ng c1 c2)
  have "fst (kid_loop choice real_features gen_features D m (Suc k) g t) =
        fst (kid_loop choice real_features gen_features D m k g2 (t + subset_estimate D m ?x ?y))"
    by (simp add: nr ng c1 c2)
  also have "\<dots> = t + subset_estimate D m ?x ?y +
      (\<Sum>j\<leftarrow>[0..<k]. estimate_at choice g2 real_features gen_features D (nat m) j)"
    by (rule Suc.IH [OF rest])
  also have "\<dots> = t +
      (\<Sum>j\<leftarrow>[0..<Suc k]. estimate_at choice g real_features gen_features D (nat m) j)"
    unfolding upt_Suc_shift by (simp add: est first later comp_def)
  finally show ?case .
qed

lemma kid_score_eq:
  "kid_score choice g real_features gen_features num_subsets max_subset_size =
   (if subset_size real_features gen_features max_subset_size < 2 then Inl NotEnoughSamples
    else if num_subsets = 0 then Inl ZeroDivisionError
    else Inr (fst (kid_loop choice real_features gen_features (length (hd real_features))
                     (subset_size real_features gen_features max_subset_size)
                     (nat num_subsets) g 0)
              / real_of_int (num_subsets * subset_size real_features gen_features max_subset_size)))"
  by (auto simp: kid_score_def subset_size_def Let_def)

text \<open>
  Claim C2. For two feature matrices of dimension \<open>n\<close> with
  \<open>m = min(|real|, |gen|, max_subset_size) \<ge> 2\<close>, and index samples of size \<open>m\<close> drawn
  without replacement in every iteration, \<open>kid_score\<close> returns the sum over the
  \<open>num_subsets\<close> iterations of the subset estimate, divided by \<open>num_subsets \<cdot> m\<close>. The
  estimate of an iteration is \<open>(sum(a) - trace(a)) / (m - 1) - 2 sum(b) / m\<close> for the
  kernel matrices \<open>a = K(x,x) + K(y,y)\<close> and \<open>b = K(x,y)\<close> of the kernel
  \<open>k(u,v) = (u\<cdot>v / n + 1)\<^sup>3\<close> on the sampled rows. No value is returned for
  \<open>num_subsets = 0\<close>: the division raises.
\<close>

theorem kid_score_subset_estimates:
  assumes "has_shape num_real n real_features" and "has_shape num_gen n gen_features"
    and "0 < n"
    and "2 \<le> subset_size real_features gen_features max_subset_size"
    and "valid_draws choice num_real num_gen
           (nat (subset_size real_features gen_features max_subset_size)) g (nat num_subsets)"
  shows "kid_score choice g real_features gen_features num_subsets max_subset_size =
         (if num_subsets = 0 then Inl ZeroDivisionError
          else Inr ((\<Sum>t\<leftarrow>[0..<nat num_subsets].
                       estimate_at choice g real_features gen_features n
                         (nat (subset_size real_features gen_features max_subset_size)) t)
                    / real_of_int
                        (num_subsets * subset_size real_features gen_features max_subset_size)))"
proof -
  let ?m = "subset_size real_features gen_features max_subset_size"
  have "2 \<le> int (length real_features)"
    using assms(4) by (simp add: subset_size_def)
  then have "0 < num_real"
    using assms(1) by (simp add: has_shape_def)
  then have n: "length (hd real_features) = n"
    by (rule has_shape_hd [OF assms(1)])
  have "fst (kid_loop choice real_features gen_features n ?m (nat num_subsets) g 0) =
        0 + (\<Sum>t\<leftarrow>[0..<nat num_subsets].
               estimate_at choice g real_features gen_features n (nat ?m) t)"
    by (rule kid_loop_sum [OF assms(1,2,4,3,5)])
  then show ?thesis
    using assms(4) by (simp add: kid_score_eq n)
qed

theorem kid_score_subset_estimates_witness:
  "has_shape 2 2 [[1, 0], [0, 1 :: real]] \<and> has_shape 2 2 [[1, 1], [0, 0 :: real]] \<and>
   subset_size [[1, 0], [0, 1]] [[1, 1], [0, 0]] 1000 = 2 \<and>
   valid_draws (\<lambda>g N k. (map (\<lambda>i. (i + g) mod N) [0..<k], Suc g)) 2 2 2 0 1 \<and>
   kid_score (\<lambda>g N k. (map (\<lambda>i. (i + g) mod N) [0..<k], Suc g)) 0
     [[1, 0], [0, 1]] [[1, 1], [0, 0]] 1 1000 = Inr (- 19 / 8)"
proof -
  let ?choice = "\<lambda>(g::nat) N k. (map (\<lambda>i. (i + g) mod N) [0..<k], Suc g)"
  let ?real = "[[1, 0], [0, 1 :: real]]"
  let ?gen = "[[1, 1], [0, 0 :: real]]"
  have shapes: "has_shape 2 2 ?real" "has_shape 2 2 ?gen"
    by (simp_all add: has_shape_def)
  have m: "subset_size ?real ?gen 1000 = 2"
    by (simp add: subset_size_def)
  have idx: "idx_real_at ?choice 2 2 2 0 0 = [0, 1]" "idx_gen_at ?choice 2 2 2 0 0 = [1, 0]"
    by (simp_all add: idx_real_at_def idx_gen_at_def upt_rec)
  have lens: "length ?real = 2" "length ?gen = 2"
    by simp_all
  have draws: "valid_draws ?choice 2 2 2 0 1"
    by (simp add: valid_draws_def valid_draw_def idx)
  have k: "poly_kernel 2 [0, 0] v = 1" "poly_kernel 2 [1, 1] [1, 1] = 8"
    "poly_kernel 2 [1, 0] [1, 0] = 27 / 8" "poly_kernel 2 [0, 1] [0, 1] = 27 / 8"
    "poly_kernel 2 [1, 0] [0, 1] = 1" "poly_kernel 2 [0, 1] [1, 0] = 1"
    "poly_kernel 2 [1, 1] [0, 0] = 1"
    "poly_kernel 2 [1, 1] [1, 0] = 27 / 8" "poly_kernel 2 [1, 1] [0, 1] = 27 / 8" for v
    by (simp_all add: poly_kernel_def upt_rec power3_eq_cube)
  have "estimate_at ?choice 0 ?real ?gen 2 2 0 =
      spec_estimate 2 2 [[0, 0], [1, 1]] [[1, 0], [0, 1]]"
    unfolding estimate_at_def lens idx by simp
  also have "\<dots> = - 19 / 4"
    by (simp add: spec_estimate_def upt_rec k)
  finally have est: "estimate_at ?choice 0 ?real ?gen 2 2 0 = - 19 / 4" .
  have "kid_score ?choice 0 ?real ?gen 1 1000 = Inr (- 19 / 8)"
    using kid_score_subset_estimates [of 2 2 ?real 2 ?gen 1000 ?choice 0 1] shapes draws
    by (simp add: m est)
  with shapes m draws show ?thesis by (intro conjI)
qed

lemma extract_features_error:
  "snd (extract_features image_folder entries process recursive) = Inl e \<Longrightarrow> EmptyInputError e"
  by (auto simp: extract_features_eq Let_def EmptyInputError_def split: if_splits)

text \<open>
  Claim C6. On two feature matrices, \<open>kid_score\<close> raises the exception for too few
  samples (the specification's \<open>InsufficientSamplesError\<close>) exactly when
  \<open>m = min(|real|, |gen|, max_subset_size) < 2\<close>; for \<open>m \<ge> 2\<close> the loop over the
  subsets runs and its result is divided by \<open>num_subsets \<cdot> m\<close>. \<open>calculate_kid\<close> raises
  that exception exactly when both feature matrices were extracted and \<open>m < 2\<close>.
\<close>

theorem kid_not_enough_samples:
  "(kid_score choice g real_features gen_features num_subsets max_subset_size =
      Inl NotEnoughSamples \<longleftrightarrow>
    subset_size real_features gen_features max_subset_size < 2) \<and>
   kid_score choice g real_features gen_features num_subsets max_subset_size =
     (if subset_size real_features gen_features max_subset_size < 2 then Inl NotEnoughSamples
      else if num_subsets = 0 then Inl ZeroDivisionError
      else Inr (fst (kid_loop choice real_features gen_features (length (hd real_features))
                       (subset_size real_features gen_features max_subset_size)
                       (nat num_subsets) g 0)
                / real_of_int
                    (num_subsets * subset_size real_features gen_features max_subset_size))) \<and>
   (calculate_kid choice g process real_images_folder real_entries gen_images_folder
      gen_entries num_subsets max_subset_size = Inl NotEnoughSamples \<longleftrightarrow>
    (\<exists>real_feats gen_feats.
       snd (extract_features real_images_folder real_entries process True) = Inr real_feats \<and>
       snd (extract_features gen_images_folder gen_entries process False) = Inr gen_feats \<and>
       subset_size real_feats gen_feats max_subset_size < 2))"
proof -
  have a: "kid_score choice g r s num_subsets max_subset_size = Inl NotEnoughSamples \<longleftrightarrow>
      subset_size r s max_subset_size < 2" for r s
    by (simp add: kid_score_eq)
  have b: "calculate_kid choice g process real_images_folder real_entries gen_images_folder
      gen_entries num_subsets max_subset_size = Inl NotEnoughSamples \<longleftrightarrow>
    (\<exists>real_feats gen_feats.
       snd (extract_features real_images_folder real_entries process True) = Inr real_feats \<and>
       snd (extract_features gen_images_folder gen_entries process False) = Inr gen_feats \<and>
       subset_size real_feats gen_feats max_subset_size < 2)"
  proof (cases "snd (extract_features real_images_folder real_entries process True)")
    case (Inl e)
    with extract_features_error [OF Inl] show ?thesis
      by (auto simp: calculate_kid_def EmptyInputError_def)
  next
    case real: (Inr real_feats)
    show ?thesis
    proof (cases "snd (extract_features gen_images_folder gen_entries process False)")
      case (Inl e)
      with extract_features_error [OF Inl] real show ?thesis
        by (auto simp: calculate_kid_def EmptyInputError_def)
    next
      case (Inr gen_feats)
      with real show ?thesis
        by (simp add: calculate_kid_def a)
    qed
  qed
  from a b kid_score_eq [of choice g real_features gen_features num_subsets max_subset_size]
  show ?thesis by (intro conjI)
qed

section \<open>Frechet Inception Distance\<close>

lemma has_shape_index:
  "has_shape N D m \<Longrightarrow> m = map (\<lambda>i. map (\<lambda>j. m ! i ! j) [0..<D]) [0..<N]"
  by (rule nth_equalityI) (auto simp: has_shape_def list_all_length intro: nth_equalityI)

lemma has_shape_upt [simp]: "has_shape N D (map (\<lambda>i. map (f i) [0..<D]) [0..<N])"
  by (simp add: has_shape_def list_all_iff)

lemma np_dot_index:
  assumes a: "has_shape M K a" and b: "has_shape K N b" and "0 < K"
  shows "np_dot a b = map (\<lambda>i. map (\<lambda>j. \<Sum>l\<leftarrow>[0..<K]. a ! i ! l * b ! l ! j) [0..<N]) [0..<M]"
proof -
  have hd: "length (hd b) = N"
    by (rule has_shape_hd [OF b \<open>0 < K\<close>])
  have "dotp r (column b j) = (\<Sum>l\<leftarrow>[0..<K]. r ! l * b ! l ! j)" if "length r = K" for r j
  proof -
    have "dotp r (column b j) = (\<Sum>l\<leftarrow>[0..<K]. r ! l * column b j ! l)"
      using that b by (intro dotp_sum) (simp_all add: column_def has_shape_def)
    also have "\<dots> = (\<Sum>l\<leftarrow>[0..<K]. r ! l * b ! l ! j)"
      using b by (intro arg_cong [where f = sum_list] map_cong refl)
        (simp add: column_def has_shape_def)
    finally show ?thesis .
  qed
  then have "np_dot a b = map (\<lambda>r. map (\<lambda>j. \<Sum>l\<leftarrow>[0..<K]. r ! l * b ! l ! j) [0..<N]) a"
    using a unfolding np_dot_def hd
    by (intro map_cong refl) (simp add: has_shape_def list_all_iff)
  also have "\<dots> = map (\<lambda>i. map (\<lambda>j. \<Sum>l\<leftarrow>[0..<K]. a ! i ! l * b ! l ! j) [0..<N]) [0..<M]"
    using a map_as_map_nth [of "\<lambda>r. map (\<lambda>j. \<Sum>l\<leftarrow>[0..<K]. r ! l * b ! l ! j) [0..<N]" a]
    by (simp add: has_shape_def)
  finally show ?thesis .
qed

lemma mean_axis0_index:
  assumes "has_shape N D m" and "0 < N"
  shows "mean_axis0 m = map (col_mean m) [0..<D]"
proof -
  have "length m = N"
    using assms by (simp add: has_shape_def)
  then show ?thesis
    by (simp add: mean_axis0_def has_shape_hd [OF assms] column_index [OF assms(1)]
        col_mean_def)
qed

lemma np_cov_index:
  assumes m: "has_shape N D m" and N: "2 \<le> N" and D: "2 \<le> D"
  shows "np_cov m = Some (cov_matrix 1 m)"
proof -
  have len: "length m = N" and hd: "length (hd m) = D"
    using m N has_shape_hd [OF m] by (simp_all add: has_shape_def)
  let ?X = "np_T m"
  have X: "?X = map (\<lambda>j. map (\<lambda>k. m ! k ! j) [0..<N]) [0..<D]"
    using N by (intro np_T_index [OF m]) simp
  have hdX: "length (hd ?X) = N"
    using D by (simp add: X hd_map)
  have avg: "map (\<lambda>r. sum_list r / real (length r)) ?X = map (col_mean m) [0..<D]"
    by (simp add: X col_mean_def len)
  let ?Xc = "map (\<lambda>j. map (\<lambda>k. m ! k ! j - col_mean m j) [0..<N]) [0..<D]"
  have center: "map2 (\<lambda>r a. map (\<lambda>v. v - a) r) ?X (map (col_mean m) [0..<D]) = ?Xc"
    unfolding X map2_map_upt by simp
  have shape: "has_shape D N ?Xc"
    by simp
  have "np_dot ?Xc (np_T ?Xc) = map (\<lambda>i. map (\<lambda>j. dotp (?Xc ! i) (?Xc ! j)) [0..<D]) [0..<D]"
    using N D by (intro np_dot_T_index [OF shape shape]) simp_all
  also have "\<dots> = map (\<lambda>i. map (\<lambda>j.
      \<Sum>k\<leftarrow>[0..<N]. (m ! k ! i - col_mean m i) * (m ! k ! j - col_mean m j)) [0..<D]) [0..<D]"
  proof (intro map_cong refl)
    fix i j
    assume "i \<in> set [0..<D]" and "j \<in> set [0..<D]"
    then have "dotp (?Xc ! i) (?Xc ! j) = (\<Sum>k\<leftarrow>[0..<N]. ?Xc ! i ! k * ?Xc ! j ! k)"
      by (intro dotp_sum) simp_all
    also have "\<dots> = (\<Sum>k\<leftarrow>[0..<N]. (m ! k ! i - col_mean m i) * (m ! k ! j - col_mean m j))"
      using \<open>i \<in> set [0..<D]\<close> \<open>j \<in> set [0..<D]\<close>
      by (intro arg_cong [where f = sum_list] map_cong refl) simp
    finally show "dotp (?Xc ! i) (?Xc ! j) =
        (\<Sum>k\<leftarrow>[0..<N]. (m ! k ! i - col_mean m i) * (m ! k ! j - col_mean m j))" .
  qed
  finally have c: "np_dot ?Xc (np_T ?Xc) = map (\<lambda>i. map (\<lambda>j.
      \<Sum>k\<leftarrow>[0..<N]. (m ! k ! i - col_mean m i) * (m ! k ! j - col_mean m j)) [0..<D]) [0..<D]" .
  have "np_cov m = Some (mat_map (\<lambda>v. v * (1 / (real N - 1))) (np_dot ?Xc (np_T ?Xc)))"
    using N D by (simp add: np_cov_def len hd Let_def avg center hdX)
  then show ?thesis
    unfolding c by (simp add: mat_map_def cov_matrix_def cov_entry_def hd len comp_def)
qed

lemma mat_sub_index:
  "mat_sub (map (\<lambda>i. map (\<lambda>j. f i j) [0..<N]) [0..<M]) (map (\<lambda>i. map (\<lambda>j. g i j) [0..<N]) [0..<M]) =
   map (\<lambda>i. map (\<lambda>j. f i j - g i j) [0..<N]) [0..<M]"
  by (simp add: mat_sub_def map2_map_upt)

lemma cov_matrix_index:
  assumes "has_shape N D m" and "0 < N"
  shows "cov_matrix ddof m = map (\<lambda>i. map (\<lambda>j. cov_entry ddof m i j) [0..<D]) [0..<D]"
  by (simp add: cov_matrix_def has_shape_hd [OF assms])

lemma fid_score_index:
  assumes real: "has_shape N1 D real_features" and gen: "has_shape N2 D gen_features"
    and N1: "2 \<le> N1" and N2: "2 \<le> N2" and D: "2 \<le> D"
    and sq: "has_shape D D
               (sqrtm (mat_prod D (cov_matrix 1 real_features) (cov_matrix 1 gen_features)))"
  shows "fid_score sqrtm real_features gen_features =
         Some (frechet_distance sqrtm 1 D real_features gen_features)"
proof -
  let ?sr = "cov_matrix 1 real_features" and ?sg = "cov_matrix 1 gen_features"
  let ?S = "sqrtm (mat_prod D ?sr ?sg)"
  have pos: "0 < N1" "0 < N2" "0 < D"
    using N1 N2 D by simp_all
  have sr: "?sr = map (\<lambda>i. map (\<lambda>j. cov_entry 1 real_features i j) [0..<D]) [0..<D]"
    by (rule cov_matrix_index [OF real pos(1)])
  have sg: "?sg = map (\<lambda>i. map (\<lambda>j. cov_entry 1 gen_features i j) [0..<D]) [0..<D]"
    by (rule cov_matrix_index [OF gen pos(2)])
  have shapes: "has_shape D D ?sr" "has_shape D D ?sg"
    unfolding sr sg by simp_all
  have prod: "np_dot ?sr ?sg = mat_prod D ?sr ?sg"
    unfolding mat_prod_def by (rule np_dot_index [OF shapes pos(3)])
  define S where "S = sqrtm (mat_prod D ?sr ?sg)"
  have "has_shape D D S"
    using sq by (simp add: S_def)
  then have "map (map Re) S = map (map Re) (map (\<lambda>i. map (\<lambda>j. S ! i ! j) [0..<D]) [0..<D])"
    using has_shape_index [of D D S] by simp
  then have re: "mat_map (\<lambda>v. 2 * v) (map (map Re) S) =
      map (\<lambda>i. map (\<lambda>j. 2 * Re (S ! i ! j)) [0..<D]) [0..<D]"
    by (simp add: mat_map_def comp_def)
  have diag_real: "?sr ! i ! i = cov_entry 1 real_features i i" if "i < D" for i
    using that by (subst sr) simp
  have diag_gen: "?sg ! i ! i = cov_entry 1 gen_features i i" if "i < D" for i
    using that by (subst sg) simp
  have add: "mat_add ?sr ?sg =
      map (\<lambda>i. map (\<lambda>j. cov_entry 1 real_features i j + cov_entry 1 gen_features i j) [0..<D])
        [0..<D]"
    by (subst sr, subst sg) (rule mat_add_index)
  have "np_trace (mat_sub (mat_add ?sr ?sg) (mat_map (\<lambda>v. 2 * v) (map (map Re) S))) =
      (\<Sum>i\<leftarrow>[0..<D]. cov_entry 1 real_features i i + cov_entry 1 gen_features i i
                        - 2 * Re (S ! i ! i))"
    by (simp only: add re mat_sub_index np_trace_index [OF pos(3)])
  also have "\<dots> = (\<Sum>i\<leftarrow>[0..<D]. ?sr ! i ! i + ?sg ! i ! i - 2 * Re (S ! i ! i))"
  proof (intro arg_cong [where f = sum_list] map_cong refl)
    fix i
    assume "i \<in> set [0..<D]"
    then have "i < D"
      by simp
    then show "cov_entry 1 real_features i i + cov_entry 1 gen_features i i
          - 2 * Re (S ! i ! i) = ?sr ! i ! i + ?sg ! i ! i - 2 * Re (S ! i ! i)"
      by (simp only: diag_real diag_gen)
  qed
  finally have trace: "np_trace (mat_sub (mat_add ?sr ?sg)
        (mat_map (\<lambda>v. 2 * v) (map (map Re) ?S))) =
      (\<Sum>i\<leftarrow>[0..<D]. ?sr ! i ! i + ?sg ! i ! i - 2 * Re (?S ! i ! i))"
    unfolding S_def .
  let ?diff = "map (\<lambda>j. col_mean real_features j - col_mean gen_features j) [0..<D]"
  have diff: "map2 (\<lambda>a b. a - b) (mean_axis0 real_features) (mean_axis0 gen_features) = ?diff"
    by (simp only: mean_axis0_index [OF real pos(1)] mean_axis0_index [OF gen pos(2)] map2_map_upt)
  have "dotp ?diff ?diff = (\<Sum>j\<leftarrow>[0..<D]. ?diff ! j * ?diff ! j)"
    by (intro dotp_sum) simp_all
  also have "\<dots> = (\<Sum>j\<leftarrow>[0..<D]. (col_mean real_features j - col_mean gen_features j)\<^sup>2)"
    by (intro arg_cong [where f = sum_list] map_cong refl) (simp add: power2_eq_square)
  finally have norm: "dotp ?diff ?diff =
      (\<Sum>j\<leftarrow>[0..<D]. (col_mean real_features j - col_mean gen_features j)\<^sup>2)" .
  show ?thesis
    unfolding fid_score_def np_cov_index [OF real N1 D] np_cov_index [OF gen N2 D]
      option.case Let_def diff prod trace norm frechet_distance_def ..
qed

text \<open>
  Claim C1, as the code has it. For feature matrices of at least two rows and two
  columns, the covariance inside \<open>fid_score\<close> is the sample covariance of the rows:
  the divisor is \<open>N - 1\<close>, not \<open>N\<close>. \<open>fid_score\<close> is the squared distance of the mean
  vectors plus the trace of \<open>\<Sigma>\<^sub>r + \<Sigma>\<^sub>g - 2 Re (sqrtm (\<Sigma>\<^sub>r \<Sigma>\<^sub>g))\<close> for these covariances,
  where \<open>sqrtm\<close> returns a matrix of the shape of its argument and only the real part of
  its entries is used.
\<close>

theorem fid_score_sample_covariance:
  assumes "has_shape N1 D real_features" and "has_shape N2 D gen_features"
    and "2 \<le> N1" and "2 \<le> N2" and "2 \<le> D"
    and "has_shape D D
           (sqrtm (mat_prod D (sample_cov real_features) (sample_cov gen_features)))"
  shows "np_cov real_features = Some (sample_cov real_features) \<and>
         np_cov gen_features = Some (sample_cov gen_features) \<and>
         fid_score sqrtm real_features gen_features =
           Some (frechet_distance sqrtm 1 D real_features gen_features)"
  using assms np_cov_index [of N1 D real_features] np_cov_index [of N2 D gen_features]
    fid_score_index [of N1 D real_features N2 gen_features sqrtm]
  by (simp add: sample_cov_def)

lemma example_covariances:
  "cov_matrix ddof [[0, 0], [2, 4]] =
     [[2 / (2 - real ddof), 4 / (2 - real ddof)], [4 / (2 - real ddof), 8 / (2 - real ddof)]]"
  "cov_matrix ddof [[1, 1], [1, 1]] = [[0, 0], [0, 0]]"
  by (simp_all add: cov_matrix_def cov_entry_def col_mean_def upt_rec)

theorem fid_score_sample_covariance_witness:
  "has_shape 2 2 [[0, 0], [2, 4 :: real]] \<and> has_shape 2 2 [[1, 1], [1, 1 :: real]] \<and>
   has_shape 2 2
     (sqrtm_diagonal (mat_prod 2 (sample_cov [[0, 0], [2, 4]]) (sample_cov [[1, 1], [1, 1]]))) \<and>
   np_cov [[0, 0], [2, 4]] = Some [[2, 4], [4, 8]] \<and>
   fid_score sqrtm_diagonal [[0, 0], [2, 4]] [[1, 1], [1, 1]] = Some 11"
proof -
  let ?real = "[[0, 0], [2, 4 :: real]]" and ?gen = "[[1, 1], [1, 1 :: real]]"
  have shapes: "has_shape 2 2 ?real" "has_shape 2 2 ?gen"
    by (simp_all add: has_shape_def)
  have cov: "sample_cov ?real = [[2, 4], [4, 8]]" "sample_cov ?gen = [[0, 0], [0, 0]]"
    using example_covariances [of 1] by (simp_all add: sample_cov_def)
  have prod: "mat_prod 2 (sample_cov ?real) (sample_cov ?gen) = [[0, 0], [0, 0]]"
    unfolding cov by (simp add: mat_prod_def upt_rec)
  have root: "sqrtm_diagonal [[0, 0], [0, 0]] = [[0, 0], [0, 0]]"
    by (simp add: sqrtm_diagonal_def)
  have sq: "has_shape 2 2 (sqrtm_diagonal (mat_prod 2 (sample_cov ?real) (sample_cov ?gen)))"
    unfolding prod root by (simp add: has_shape_def)
  have "frechet_distance sqrtm_diagonal 1 2 ?real ?gen = 11"
    unfolding frechet_distance_def Let_def cov [unfolded sample_cov_def]
      prod [unfolded cov] root
    by (simp add: col_mean_def upt_rec)
  with fid_score_sample_covariance [of 2 2 ?real 2 ?gen sqrtm_diagonal] shapes sq cov
  show ?thesis
    by simp
qed

text \<open>
  Claim C1 as the specification states it, with the population covariance, fails: for
  the two observations \<open>(0, 0)\<close> and \<open>(2, 4)\<close> numpy's covariance is twice the
  population covariance, and against two equal generated rows the score is 11, where the
  formula with the population covariance gives 6. (The covariance product is the zero
  matrix here, whose square root is the zero matrix.)
\<close>

theorem fid_population_covariance_counterexample:
  "np_cov [[0, 0], [2, 4]] = Some [[2, 4], [4, 8]] \<and>
   population_cov [[0, 0], [2, 4]] = [[1, 2], [2, 4]] \<and>
   np_cov [[0, 0], [2, 4]] \<noteq> Some (population_cov [[0, 0], [2, 4]]) \<and>
   fid_score sqrtm_diagonal [[0, 0], [2, 4]] [[1, 1], [1, 1]] = Some 11 \<and>
   frechet_distance sqrtm_diagonal 0 2 [[0, 0], [2, 4]] [[1, 1], [1, 1]] = 6"
proof -
  let ?real = "[[0, 0], [2, 4 :: real]]" and ?gen = "[[1, 1], [1, 1 :: real]]"
  have T: "np_T ?real = [[0, 2], [0, 4]]" "np_T ?gen = [[1, 1], [1, 1]]"
    by (simp_all add: np_T_def column_def upt_rec)
  have TT: "np_T [[- 1, 1], [- 2, 2 :: real]] = [[- 1, - 2], [1, 2]]"
    "np_T [[0, 0], [0, 0 :: real]] = [[0, 0], [0, 0]]"
    by (simp_all add: np_T_def column_def upt_rec)
  have c_real: "np_cov ?real = Some [[2, 4], [4, 8]]"
    by (simp add: np_cov_def T Let_def TT np_dot_def dotp_def column_def mat_map_def upt_rec)
  have c_gen: "np_cov ?gen = Some [[0, 0], [0, 0]]"
    by (simp add: np_cov_def T Let_def TT np_dot_def dotp_def column_def mat_map_def upt_rec)
  have pop: "population_cov ?real = [[1, 2], [2, 4]]" "population_cov ?gen = [[0, 0], [0, 0]]"
    using example_covariances [of 0] by (simp_all add: population_cov_def)
  have root: "sqrtm_diagonal [[0, 0], [0, 0]] = [[0, 0], [0, 0]]"
    by (simp add: sqrtm_diagonal_def)
  have fid: "fid_score sqrtm_diagonal ?real ?gen = Some 11"
    unfolding fid_score_def c_real c_gen option.case
    by (simp add: Let_def mean_axis0_def column_def np_dot_def dotp_def root mat_add_def
        mat_sub_def mat_map_def np_trace_def upt_rec)
  have "mat_prod 2 [[1, 2], [2, 4]] [[0, 0], [0, 0]] = [[0, 0], [0, 0]]"
    by (simp add: mat_prod_def upt_rec)
  then have fd: "frechet_distance sqrtm_diagonal 0 2 ?real ?gen = 6"
    unfolding frechet_distance_def Let_def pop [unfolded population_cov_def]
    by (simp add: root col_mean_def upt_rec)
  from c_real pop(1) fid fd show ?thesis by simp
qed

end
